theory Spec2Isabelle
  imports Main "HOL-Library.Sublist"
begin

section \<open>JavaScript values\<close>

text \<open>
  The controller \<^verbatim>\<open>server/controllers/aiController.js\<close> handles values of unknown shape:
  request bodies, provider responses and the results of \<^verbatim>\<open>JSON.parse\<close>. All of them
  are JSON data, so a value is one of the JSON forms or \<^verbatim>\<open>undefined\<close>.

  A string is a \<^typ>\<open>string\<close>: the bytes of its UTF-8 encoding. A number \<open>JNum m e\<close> is the
  decimal \<open>m \<times> 10\<^sup>e\<close>, the exact value of the literal it was read from; rounding to
  binary64 is not modelled, and negative zero is zero. An object is the list of its own
  properties in enumeration order.
\<close>

datatype jsval =
    JUndefined
  | JNull
  | JBool bool
  | JNum int int
  | JStr string
  | JArr "jsval list"
  | JObj "(string \<times> jsval) list"

text \<open>A thrown error, with its \<^verbatim>\<open>message\<close>.\<close>

datatype js_error =
    TypeError string
  | SyntaxError string
  | Rejected string

fun message :: "js_error \<Rightarrow> string" where
  "message (TypeError m) = m"
| "message (SyntaxError m) = m"
| "message (Rejected m) = m"

text \<open>Sequencing of steps that may throw: the first error ends the computation.\<close>

definition bind_err :: "'e + 'a \<Rightarrow> ('a \<Rightarrow> 'e + 'b) \<Rightarrow> 'e + 'b" where
  "bind_err m f = (case m of Inl e \<Rightarrow> Inl e | Inr x \<Rightarrow> f x)"

text \<open>\<^verbatim>\<open>ToBoolean\<close>: what \<^verbatim>\<open>!v\<close>, \<^verbatim>\<open>if (v)\<close>, \<^verbatim>\<open>v && w\<close> and \<^verbatim>\<open>v || w\<close> test.\<close>

fun truthy :: "jsval \<Rightarrow> bool" where
  "truthy JUndefined = False"
| "truthy JNull = False"
| "truthy (JBool b) = b"
| "truthy (JNum m e) = (m \<noteq> 0)"
| "truthy (JStr s) = (s \<noteq> [])"
| "truthy (JArr xs) = True"
| "truthy (JObj kvs) = True"

definition nullish :: "jsval \<Rightarrow> bool" where
  "nullish v = (v = JUndefined \<or> v = JNull)"

fun typeof :: "jsval \<Rightarrow> string" where
  "typeof JUndefined = ''undefined''"
| "typeof JNull = ''object''"
| "typeof (JBool b) = ''boolean''"
| "typeof (JNum m e) = ''number''"
| "typeof (JStr s) = ''string''"
| "typeof (JArr xs) = ''object''"
| "typeof (JObj kvs) = ''object''"

subsection \<open>Property access\<close>

definition is_digit :: "char \<Rightarrow> bool" where
  "is_digit c = (48 \<le> (of_char c :: int) \<and> (of_char c :: int) \<le> 57)"

definition int_of_digits :: "string \<Rightarrow> int" where
  "int_of_digits ds = foldl (\<lambda>n c. 10 * n + (of_char c - 48)) 0 ds"

text \<open>
  An array index is a property key that is the canonical decimal form of an integer below
  \<open>2\<^sup>3\<^sup>2 - 1\<close>.
\<close>

definition index_of_key :: "string \<Rightarrow> nat option" where
  "index_of_key k =
     (if k \<noteq> [] \<and> list_all is_digit k \<and> (hd k = CHR ''0'' \<longrightarrow> length k = 1)
         \<and> int_of_digits k < 4294967295
      then Some (nat (int_of_digits k)) else None)"

text \<open>
  \<^verbatim>\<open>v.k\<close> and \<^verbatim>\<open>v[k]\<close>: reading a property of \<^verbatim>\<open>undefined\<close> or \<^verbatim>\<open>null\<close> throws a
  \<^verbatim>\<open>TypeError\<close>. The model holds the own data properties of objects and the elements of
  arrays and strings; the names the controller reads (\<^verbatim>\<open>candidates\<close>, \<^verbatim>\<open>content\<close>,
  \<^verbatim>\<open>parts\<close>, \<^verbatim>\<open>text\<close>, \<^verbatim>\<open>explanation\<close>, the request fields and the index \<^verbatim>\<open>0\<close>) are not
  defined on a built-in prototype, so every other value gives \<^verbatim>\<open>undefined\<close>. An element
  of a string is one byte here and one UTF-16 code unit in JavaScript; the controller
  reads no property of such an element that is defined.
\<close>

fun Get :: "jsval \<Rightarrow> string \<Rightarrow> js_error + jsval" where
  "Get JUndefined k =
     Inl (TypeError (''Cannot read properties of undefined (reading '' @ k @ '')''))"
| "Get JNull k =
     Inl (TypeError (''Cannot read properties of null (reading '' @ k @ '')''))"
| "Get (JObj kvs) k = Inr (case map_of kvs k of None \<Rightarrow> JUndefined | Some v \<Rightarrow> v)"
| "Get (JArr xs) k =
     Inr (case index_of_key k of
            None \<Rightarrow> JUndefined
          | Some i \<Rightarrow> if i < length xs then xs ! i else JUndefined)"
| "Get (JStr s) k =
     Inr (case index_of_key k of
            None \<Rightarrow> JUndefined
          | Some i \<Rightarrow> if i < length s then JStr [s ! i] else JUndefined)"
| "Get (JBool b) k = Inr JUndefined"
| "Get (JNum m e) k = Inr JUndefined"

text \<open>\<^verbatim>\<open>v?.k\<close> and \<^verbatim>\<open>v?.[k]\<close>: \<^verbatim>\<open>undefined\<close> when \<^verbatim>\<open>v\<close> is \<^verbatim>\<open>undefined\<close> or \<^verbatim>\<open>null\<close>.\<close>

definition OptGet :: "jsval \<Rightarrow> string \<Rightarrow> js_error + jsval" where
  "OptGet v k = (if nullish v then Inr JUndefined else Get v k)"

section \<open>The built-in functions the controller calls\<close>

subsection \<open>Whitespace, \<^verbatim>\<open>trim\<close> and the two regular expressions\<close>

text \<open>
  The class \<^verbatim>\<open>\s\<close> of a regular expression and \<^verbatim>\<open>String.prototype.trim\<close> both remove
  ECMAScript's WhiteSpace and LineTerminator code points: U+0009 to U+000D, U+0020, U+00A0,
  U+1680, U+2000 to U+200A, U+2028, U+2029, U+202F, U+205F, U+3000 and U+FEFF, here in
  UTF-8.
\<close>

definition is_ws :: "string \<Rightarrow> bool" where
  "is_ws cs =
     (let bs = map of_char cs :: int list in
        bs \<in> set [[0x09], [0x0A], [0x0B], [0x0C], [0x0D], [0x20], [0xC2, 0xA0],
                   [0xE1, 0x9A, 0x80], [0xE2, 0x80, 0xA8], [0xE2, 0x80, 0xA9],
                   [0xE2, 0x80, 0xAF], [0xE2, 0x81, 0x9F], [0xE3, 0x80, 0x80],
                   [0xEF, 0xBB, 0xBF]]
        \<or> (length bs = 3 \<and> take 2 bs = [0xE2, 0x80] \<and> 0x80 \<le> bs ! 2 \<and> bs ! 2 \<le> 0x8A))"

text \<open>
  Removing the whitespace a string starts with. With \<open>back\<close> the string is read from its
  end: the argument is the reversed string, and so is the result.
\<close>

fun skip_ws :: "bool \<Rightarrow> string \<Rightarrow> string" where
  "skip_ws back (a # b # c # s) =
     (if is_ws [a] then skip_ws back (b # c # s)
      else if is_ws (if back then [b, a] else [a, b]) then skip_ws back (c # s)
      else if is_ws (if back then [c, b, a] else [a, b, c]) then skip_ws back s
      else a # b # c # s)"
| "skip_ws back [a, b] =
     (if is_ws [a] then skip_ws back [b]
      else if is_ws (if back then [b, a] else [a, b]) then []
      else [a, b])"
| "skip_ws back [a] = (if is_ws [a] then [] else [a])"
| "skip_ws back [] = []"

definition trim :: "string \<Rightarrow> string" where
  "trim s = rev (skip_ws True (rev (skip_ws False s)))"

text \<open>
  \<^verbatim>\<open>text.replace(/^```json\s*/, "")\<close>: the expression matches only where the text starts
  with three backquotes and the letters \<^verbatim>\<open>json\<close>, and then takes all the whitespace that
  follows.
\<close>

definition replace_leading_fence :: "string \<Rightarrow> string" where
  \<open>replace_leading_fence text =
     (if prefix ''```json'' text then skip_ws False (drop 7 text) else text)\<close>

text \<open>
  \<^verbatim>\<open>.replace(/```$/, "")\<close>: without the \<^verbatim>\<open>m\<close> flag, \<^verbatim>\<open>$\<close> matches at the end of the text
  only, so the expression matches three backquotes that end the text.
\<close>

definition replace_trailing_fence :: "string \<Rightarrow> string" where
  \<open>replace_trailing_fence text =
     (if suffix ''```'' text then take (length text - 3) text else text)\<close>

subsection \<open>Numbers and strings as text\<close>

function digits_of :: "int \<Rightarrow> string" where
  "digits_of n =
     (if n < 10 then [''0123456789'' ! nat n]
      else digits_of (n div 10) @ [''0123456789'' ! nat (n mod 10)])"
  by pat_completeness auto
termination
  by (relation "measure nat") auto

text \<open>
  \<^verbatim>\<open>Number::toString\<close> for the decimal \<open>m \<times> 10\<^sup>e\<close>: with \<open>k\<close> significant digits and
  \<open>n\<close> the position of the decimal point, the four formats of ECMAScript. It is what a
  JavaScript engine prints for a literal of at most 15 significant digits in the range of
  binary64.
\<close>

definition Number_toString :: "int \<Rightarrow> int \<Rightarrow> string" where
  "Number_toString m e =
     (if m = 0 then ''0''
      else
        let all_ds = digits_of \<bar>m\<bar>;
            z = length (takeWhile (\<lambda>c. c = CHR ''0'') (rev all_ds));
            ds = take (length all_ds - z) all_ds;
            k = int (length ds);
            n = k + e + int z;
            shown =
              (if k \<le> n \<and> n \<le> 21 then ds @ replicate (nat (n - k)) CHR ''0''
               else if 0 < n \<and> n \<le> 21 then take (nat n) ds @ ''.'' @ drop (nat n) ds
               else if - 6 < n \<and> n \<le> 0 then ''0.'' @ replicate (nat (- n)) CHR ''0'' @ ds
               else take 1 ds @ (if k = 1 then [] else ''.'' @ drop 1 ds) @ ''e''
                    @ (if 0 \<le> n - 1 then ''+'' else ''-'') @ digits_of \<bar>n - 1\<bar>)
        in (if m < 0 then ''-'' else []) @ shown)"

text \<open>
  \<^verbatim>\<open>ToString\<close>, the conversion of a template literal and of the argument of
  \<^verbatim>\<open>JSON.parse\<close>. An array is joined with commas (\<^verbatim>\<open>undefined\<close> and \<^verbatim>\<open>null\<close> elements
  are empty). A plain object is \<^verbatim>\<open>[object Object]\<close>, unless it has an own property
  \<^verbatim>\<open>toString\<close>: JSON data is never callable, so no method gives a primitive and the
  conversion throws.
\<close>

fun ToString :: "jsval \<Rightarrow> js_error + string"
  and join_elems :: "jsval list \<Rightarrow> js_error + string" where
  "ToString JUndefined = Inr ''undefined''"
| "ToString JNull = Inr ''null''"
| "ToString (JBool b) = Inr (if b then ''true'' else ''false'')"
| "ToString (JNum m e) = Inr (Number_toString m e)"
| "ToString (JStr s) = Inr s"
| "ToString (JArr xs) = join_elems xs"
| "ToString (JObj kvs) =
     (if map_of kvs ''toString'' = None then Inr ''[object Object]''
      else Inl (TypeError ''Cannot convert object to primitive value''))"
| "join_elems [] = Inr []"
| "join_elems (x # xs) =
     bind_err (if nullish x then Inr [] else ToString x) (\<lambda>s.
       if xs = [] then Inr s
       else bind_err (join_elems xs) (\<lambda>r. Inr (s @ '','' @ r)))"

subsection \<open>\<^verbatim>\<open>JSON.parse\<close>\<close>

text \<open>
  A number with all its digits: the normal form \<open>JNum m e\<close> in which \<open>m\<close> does not end in
  a zero.
\<close>

definition js_number :: "int \<Rightarrow> int \<Rightarrow> jsval" where
  "js_number m e =
     (if m = 0 then JNum 0 0
      else
        let z = length (takeWhile (\<lambda>c. c = CHR ''0'') (rev (digits_of \<bar>m\<bar>)))
        in JNum (m div 10 ^ z) (e + int z))"

text \<open>
  The JSON number grammar: an optional minus, an integer part without a leading zero, an
  optional fraction and an optional exponent.
\<close>

definition number_of :: "string \<Rightarrow> jsval option" where
  "number_of s =
     (let neg = (take 1 s = ''-'');
          s1 = (if neg then drop 1 s else s);
          ip = takeWhile is_digit s1;
          s2 = dropWhile is_digit s1;
          has_frac = (take 1 s2 = ''.'');
          fp = (if has_frac then takeWhile is_digit (drop 1 s2) else []);
          s3 = (if has_frac then dropWhile is_digit (drop 1 s2) else s2);
          has_exp = (take 1 s3 = ''e'' \<or> take 1 s3 = ''E'');
          s4 = (if has_exp then drop 1 s3 else s3);
          eneg = (has_exp \<and> take 1 s4 = ''-'');
          ep = (if has_exp \<and> (take 1 s4 = ''-'' \<or> take 1 s4 = ''+'') then drop 1 s4 else s4)
      in if ip \<noteq> [] \<and> (length ip = 1 \<or> take 1 ip \<noteq> ''0'')
            \<and> (if has_frac then fp \<noteq> [] else True)
            \<and> (if has_exp then ep \<noteq> [] \<and> list_all is_digit ep else ep = [])
         then Some (js_number ((if neg then - 1 else 1) * int_of_digits (ip @ fp))
                      ((if eneg then - 1 else 1) * int_of_digits ep - int (length fp)))
         else None)"

text \<open>The bytes of a code point in UTF-8 (a lone surrogate is written the same way).\<close>

definition utf8 :: "int \<Rightarrow> string" where
  "utf8 cp =
     (if cp < 0x80 then [char_of cp]
      else if cp < 0x800 then [char_of (0xC0 + cp div 64), char_of (0x80 + cp mod 64)]
      else if cp < 0x10000 then
        [char_of (0xE0 + cp div 4096), char_of (0x80 + cp div 64 mod 64),
         char_of (0x80 + cp mod 64)]
      else
        [char_of (0xF0 + cp div 262144), char_of (0x80 + cp div 4096 mod 64),
         char_of (0x80 + cp div 64 mod 64), char_of (0x80 + cp mod 64)])"

definition hex_val :: "char \<Rightarrow> int option" where
  "hex_val c =
     (let n = of_char c :: int in
        if 48 \<le> n \<and> n \<le> 57 then Some (n - 48)
        else if 65 \<le> n \<and> n \<le> 70 then Some (n - 55)
        else if 97 \<le> n \<and> n \<le> 102 then Some (n - 87)
        else None)"

definition hex4 :: "char \<Rightarrow> char \<Rightarrow> char \<Rightarrow> char \<Rightarrow> int option" where
  "hex4 a b c d =
     (case (hex_val a, hex_val b, hex_val c, hex_val d) of
        (Some w, Some x, Some y, Some z) \<Rightarrow> Some (4096 * w + 256 * x + 16 * y + z)
      | _ \<Rightarrow> None)"

text \<open>
  The body of a JSON string literal, between its quotes: a piece is a byte of the text or
  the code unit of a \<^verbatim>\<open>\uXXXX\<close> escape. A control character is not allowed, and a
  backslash starts one of the escapes of the grammar.
\<close>

datatype piece = Byte char | Unit int

fun unescape :: "string \<Rightarrow> piece list option" where
  "unescape [] = Some []"
| "unescape (c # cs) =
     (if c = CHR 0x5C then
        (case cs of
           [] \<Rightarrow> None
         | e # rest \<Rightarrow>
             if e = CHR ''u'' then
               (case rest of
                  h1 # h2 # h3 # h4 # rest' \<Rightarrow>
                    (case hex4 h1 h2 h3 h4 of
                       None \<Rightarrow> None
                     | Some u \<Rightarrow> map_option (Cons (Unit u)) (unescape rest'))
                | _ \<Rightarrow> None)
             else
               (case map_of [(CHR 0x22, CHR 0x22), (CHR 0x5C, CHR 0x5C), (CHR ''/'', CHR ''/''),
                             (CHR ''b'', CHR 0x08), (CHR ''f'', CHR 0x0C),
                             (CHR ''n'', CHR 0x0A), (CHR ''r'', CHR 0x0D),
                             (CHR ''t'', CHR 0x09)] e of
                  None \<Rightarrow> None
                | Some b \<Rightarrow> map_option (Cons (Byte b)) (unescape rest)))
      else if (of_char c :: int) < 0x20 then None
      else map_option (Cons (Byte c)) (unescape cs))"

text \<open>An escaped high surrogate followed by an escaped low surrogate is one code point.\<close>

fun encode :: "piece list \<Rightarrow> string" where
  "encode [] = []"
| "encode (Byte c # ps) = c # encode ps"
| "encode (Unit hi # Unit lo # ps) =
     (if 0xD800 \<le> hi \<and> hi < 0xDC00 \<and> 0xDC00 \<le> lo \<and> lo < 0xE000
      then utf8 (0x10000 + (hi - 0xD800) * 1024 + (lo - 0xDC00)) @ encode ps
      else utf8 hi @ encode (Unit lo # ps))"
| "encode (Unit u # ps) = utf8 u @ encode ps"

datatype token = LBrace | RBrace | LBracket | RBracket | Colon | Comma | Scalar jsval

definition is_json_ws :: "char \<Rightarrow> bool" where
  "is_json_ws c = (c = CHR 0x20 \<or> c = CHR 0x09 \<or> c = CHR 0x0A \<or> c = CHR 0x0D)"

definition is_number_char :: "char \<Rightarrow> bool" where
  "is_number_char c = (is_digit c \<or> c \<in> set ''+-.eE'')"

text \<open>
  The tokens of a text. \<open>tokens_str\<close> collects the body of a string literal up to its closing
  quote, \<open>tokens_num\<close> the characters of a number literal (reversed, in \<open>acc\<close>). No JSON text
  has a number followed by a character a number can hold, so the longest run of such
  characters is the literal.
\<close>

fun tokens :: "string \<Rightarrow> token list option"
  and tokens_str :: "string \<Rightarrow> string \<Rightarrow> token list option"
  and tokens_num :: "string \<Rightarrow> string \<Rightarrow> token list option" where
  "tokens [] = Some []"
| "tokens (c # cs) =
     (if is_json_ws c then tokens cs
      else if c = CHR ''{'' then map_option (Cons LBrace) (tokens cs)
      else if c = CHR ''}'' then map_option (Cons RBrace) (tokens cs)
      else if c = CHR ''['' then map_option (Cons LBracket) (tokens cs)
      else if c = CHR '']'' then map_option (Cons RBracket) (tokens cs)
      else if c = CHR '':'' then map_option (Cons Colon) (tokens cs)
      else if c = CHR '','' then map_option (Cons Comma) (tokens cs)
      else if c = CHR 0x22 then tokens_str [] cs
      else if c = CHR ''-'' \<or> is_digit c then tokens_num [c] cs
      else if c = CHR ''t'' then
        (case cs of
           x # y # z # rest \<Rightarrow>
             if [x, y, z] = ''rue'' then map_option (Cons (Scalar (JBool True))) (tokens rest)
             else None
         | _ \<Rightarrow> None)
      else if c = CHR ''f'' then
        (case cs of
           w # x # y # z # rest \<Rightarrow>
             if [w, x, y, z] = ''alse'' then map_option (Cons (Scalar (JBool False))) (tokens rest)
             else None
         | _ \<Rightarrow> None)
      else if c = CHR ''n'' then
        (case cs of
           x # y # z # rest \<Rightarrow>
             if [x, y, z] = ''ull'' then map_option (Cons (Scalar JNull)) (tokens rest)
             else None
         | _ \<Rightarrow> None)
      else None)"
| "tokens_str acc [] = None"
| "tokens_str acc (c # cs) =
     (if c = CHR 0x22 then
        (case unescape (rev acc) of
           None \<Rightarrow> None
         | Some ps \<Rightarrow> map_option (Cons (Scalar (JStr (encode ps)))) (tokens cs))
      else if c = CHR 0x5C then
        (case cs of
           [] \<Rightarrow> None
         | e # rest \<Rightarrow> tokens_str (e # c # acc) rest)
      else tokens_str (c # acc) cs)"
| "tokens_num acc [] = map_option (\<lambda>n. [Scalar n]) (number_of (rev acc))"
| "tokens_num acc (c # cs) =
     (if is_number_char c then tokens_num (c # acc) cs
      else
        (case number_of (rev acc) of
           None \<Rightarrow> None
         | Some n \<Rightarrow> map_option (Cons (Scalar n)) (tokens (c # cs))))"

text \<open>
  Defining a property of an object under construction: a key the object has keeps its
  place; a new array index goes among the array indices, which come first in ascending
  order; any other new key goes last.
\<close>

definition obj_set :: "(string \<times> jsval) list \<Rightarrow> string \<Rightarrow> jsval \<Rightarrow> (string \<times> jsval) list" where
  "obj_set ob k v =
     (if map_of ob k \<noteq> None then map (\<lambda>(k', v'). if k' = k then (k', v) else (k', v')) ob
      else
        (case index_of_key k of
           None \<Rightarrow> ob @ [(k, v)]
         | Some i \<Rightarrow>
             let earlier = (\<lambda>(k', v'). case index_of_key k' of None \<Rightarrow> False | Some j \<Rightarrow> j < i)
             in takeWhile earlier ob @ [(k, v)] @ dropWhile earlier ob))"

text \<open>
  The grammar of JSON values over the tokens, as a pushdown automaton: the stack holds the
  arrays (their elements so far, last first) and objects that are open, and the key that
  waits for its value.
\<close>

datatype frame = InArray "jsval list" | InObject "(string \<times> jsval) list" | AtKey string

datatype expect =
    AValue | AValueOrClose | AKey | AKeyOrClose | AColon string | ACommaOrClose | Done jsval

fun deliver :: "jsval \<Rightarrow> frame list \<Rightarrow> (expect \<times> frame list) option" where
  "deliver v [] = Some (Done v, [])"
| "deliver v (InArray xs # st) = Some (ACommaOrClose, InArray (v # xs) # st)"
| "deliver v (AtKey k # InObject ob # st) = Some (ACommaOrClose, InObject (obj_set ob k v) # st)"
| "deliver v st = None"

fun step :: "expect \<Rightarrow> frame list \<Rightarrow> token \<Rightarrow> (expect \<times> frame list) option" where
  "step AValue st (Scalar v) = deliver v st"
| "step AValue st LBracket = Some (AValueOrClose, InArray [] # st)"
| "step AValue st LBrace = Some (AKeyOrClose, InObject [] # st)"
| "step AValueOrClose st (Scalar v) = deliver v st"
| "step AValueOrClose st LBracket = Some (AValueOrClose, InArray [] # st)"
| "step AValueOrClose st LBrace = Some (AKeyOrClose, InObject [] # st)"
| "step AValueOrClose (InArray xs # st) RBracket = deliver (JArr (rev xs)) st"
| "step AKey st (Scalar (JStr k)) = Some (AColon k, st)"
| "step AKeyOrClose st (Scalar (JStr k)) = Some (AColon k, st)"
| "step AKeyOrClose (InObject ob # st) RBrace = deliver (JObj ob) st"
| "step (AColon k) st Colon = Some (AValue, AtKey k # st)"
| "step ACommaOrClose (InArray xs # st) Comma = Some (AValue, InArray xs # st)"
| "step ACommaOrClose (InArray xs # st) RBracket = deliver (JArr (rev xs)) st"
| "step ACommaOrClose (InObject ob # st) Comma = Some (AKey, InObject ob # st)"
| "step ACommaOrClose (InObject ob # st) RBrace = deliver (JObj ob) st"
| "step ex st t = None"

fun run :: "expect \<Rightarrow> frame list \<Rightarrow> token list \<Rightarrow> jsval option" where
  "run ex st [] = (case ex of Done v \<Rightarrow> Some v | _ \<Rightarrow> None)"
| "run ex st (t # ts) =
     (case step ex st t of None \<Rightarrow> None | Some (ex', st') \<Rightarrow> run ex' st' ts)"

text \<open>
  \<^verbatim>\<open>JSON.parse\<close> of a string: the value, or a \<^verbatim>\<open>SyntaxError\<close>. The wording of the
  message is the engine's; the model keeps the part of it that quotes the text.
\<close>

definition JSON_parse :: "string \<Rightarrow> js_error + jsval" where
  "JSON_parse text =
     (case Option.bind (tokens text) (run AValue []) of
        Some v \<Rightarrow> Inr v
      | None \<Rightarrow> Inl (SyntaxError ([CHR 0x22] @ text @ [CHR 0x22] @ '' is not valid JSON'')))"

subsection \<open>\<^verbatim>\<open>JSON.stringify\<close>\<close>

definition hex_digits :: "int \<Rightarrow> string" where
  "hex_digits n =
     map (\<lambda>d. ''0123456789abcdef'' ! nat d) [n div 4096 mod 16, n div 256 mod 16, n div 16 mod 16, n mod 16]"

text \<open>
  \<^verbatim>\<open>QuoteJSONString\<close> without the quotes: the quote, the backslash and the control
  characters are escaped, and so is a lone surrogate.
\<close>

definition escape_byte :: "char \<Rightarrow> string" where
  "escape_byte c =
     (case map_of [(CHR 0x08, ''b''), (CHR 0x09, ''t''), (CHR 0x0A, ''n''), (CHR 0x0C, ''f''),
                   (CHR 0x0D, ''r''), (CHR 0x22, [CHR 0x22]), (CHR 0x5C, [CHR 0x5C])] c of
        Some e \<Rightarrow> CHR 0x5C # e
      | None \<Rightarrow> if (of_char c :: int) < 0x20 then CHR 0x5C # CHR ''u'' # hex_digits (of_char c) else [c])"

fun escape_chars :: "string \<Rightarrow> string" where
  "escape_chars (a # b # c # s) =
     (if (of_char a :: int) = 0xED \<and> 0xA0 \<le> (of_char b :: int)
      then CHR 0x5C # CHR ''u'' # hex_digits (0xD000 + (of_char b - 0x80) * 64 + (of_char c - 0x80))
           @ escape_chars s
      else escape_byte a @ escape_chars (b # c # s))"
| "escape_chars (a # s) = escape_byte a @ escape_chars s"
| "escape_chars [] = []"

definition quote :: "string \<Rightarrow> string" where
  "quote s = [CHR 0x22] @ escape_chars s @ [CHR 0x22]"

fun join_with :: "string \<Rightarrow> string list \<Rightarrow> string" where
  "join_with sep [] = []"
| "join_with sep [x] = x"
| "join_with sep (x # y # ys) = x @ sep @ join_with sep (y # ys)"

text \<open>
  \<^verbatim>\<open>SerializeJSONProperty\<close>: \<open>None\<close> stands for \<^verbatim>\<open>undefined\<close>, which is \<^verbatim>\<open>null\<close> in an
  array and leaves a property out of an object.
\<close>

fun serialize :: "jsval \<Rightarrow> string option"
  and serialize_elems :: "jsval list \<Rightarrow> string list"
  and serialize_members :: "(string \<times> jsval) list \<Rightarrow> string list" where
  "serialize JUndefined = None"
| "serialize JNull = Some ''null''"
| "serialize (JBool b) = Some (if b then ''true'' else ''false'')"
| "serialize (JNum m e) = Some (Number_toString m e)"
| "serialize (JStr s) = Some (quote s)"
| "serialize (JArr xs) = Some (''['' @ join_with '','' (serialize_elems xs) @ '']'')"
| "serialize (JObj kvs) = Some (''{'' @ join_with '','' (serialize_members kvs) @ ''}'')"
| "serialize_elems [] = []"
| "serialize_elems (x # xs) =
     (case serialize x of None \<Rightarrow> ''null'' | Some s \<Rightarrow> s) # serialize_elems xs"
| "serialize_members [] = []"
| "serialize_members (kv # kvs) =
     (case serialize (snd kv) of
        None \<Rightarrow> serialize_members kvs
      | Some s \<Rightarrow> (quote (fst kv) @ '':'' @ s) # serialize_members kvs)"

definition JSON_stringify :: "jsval \<Rightarrow> jsval" where
  "JSON_stringify v = (case serialize v of None \<Rightarrow> JUndefined | Some s \<Rightarrow> JStr s)"

section \<open>The controller's helpers\<close>

text \<open>
  \<^verbatim>\<open>getGeminiText(response)\<close>, lines 18 to 23. The condition (line 19) reads the path
  \<^verbatim>\<open>response.candidates?.[0]?.content?.parts?.[0]?.text\<close> with optional chaining; the
  \<^verbatim>\<open>return\<close> (line 20) reads \<^verbatim>\<open>response.candidates[0].content.parts[0].text\<close> with plain
  member accesses, which throw on a missing link.
\<close>

definition text_guard :: "jsval \<Rightarrow> js_error + jsval" where
  "text_guard response =
     bind_err (Get response ''candidates'') (\<lambda>c.
     bind_err (OptGet c ''0'') (\<lambda>c0.
     bind_err (OptGet c0 ''content'') (\<lambda>ct.
     bind_err (OptGet ct ''parts'') (\<lambda>ps.
     bind_err (OptGet ps ''0'') (\<lambda>p0.
     OptGet p0 ''text'')))))"

definition text_read :: "jsval \<Rightarrow> js_error + jsval" where
  "text_read response =
     bind_err (Get response ''candidates'') (\<lambda>c.
     bind_err (Get c ''0'') (\<lambda>c0.
     bind_err (Get c0 ''content'') (\<lambda>ct.
     bind_err (Get ct ''parts'') (\<lambda>ps.
     bind_err (Get ps ''0'') (\<lambda>p0.
     Get p0 ''text'')))))"

definition getGeminiText :: "jsval \<Rightarrow> js_error + jsval" where
  "getGeminiText response =
     bind_err (if truthy response then text_guard response else Inr response) (\<lambda>cond.
       if truthy cond then text_read response else Inr JNull)"

text \<open>
  \<^verbatim>\<open>tryParseJSON(text)\<close>, lines 26 to 40. \<open>cleaned\<close> is the constant of lines 30 to 33.
\<close>

definition cleaned :: "string \<Rightarrow> string" where
  "cleaned text = trim (replace_trailing_fence (replace_leading_fence text))"

record parsed =
  json :: jsval
  error :: jsval

text \<open>
  \<open>tryParseJSON_run\<close> gives, with the outcome, the texts handed to \<^verbatim>\<open>JSON.parse\<close> in the
  order of the calls; the source has no such list, it is kept here to state which attempt
  gave a result. \<^verbatim>\<open>JSON.parse\<close> converts its argument to a string first. Only a string
  has the method \<^verbatim>\<open>replace\<close>: for any other value the \<^verbatim>\<open>catch\<close> block throws a
  \<^verbatim>\<open>TypeError\<close>, which leaves the function.
\<close>

definition tryParseJSON_run :: "jsval \<Rightarrow> string list \<times> (js_error + parsed)" where
  "tryParseJSON_run text =
     (let first = (case ToString text of Inl e \<Rightarrow> [] | Inr s \<Rightarrow> [s]) in
      case bind_err (ToString text) JSON_parse of
        Inr v \<Rightarrow> (first, Inr \<lparr>json = v, error = JNull\<rparr>)
      | Inl e \<Rightarrow>
          (case text of
             JStr s \<Rightarrow>
               (first @ [cleaned s],
                case JSON_parse (cleaned s) of
                  Inr v \<Rightarrow> Inr \<lparr>json = v, error = JNull\<rparr>
                | Inl err \<Rightarrow> Inr \<lparr>json = JNull, error = JStr (message err)\<rparr>)
           | _ \<Rightarrow>
               (first,
                bind_err (Get text ''replace'') (\<lambda>f.
                  Inl (TypeError ''text.replace is not a function'')))))"

definition tryParseJSON :: "jsval \<Rightarrow> js_error + parsed" where
  "tryParseJSON text = snd (tryParseJSON_run text)"

section \<open>The provider, the database and the handlers\<close>

text \<open>
  What a handler does to the outside, in order: the call of
  \<^verbatim>\<open>ai.models.generateContent\<close> with its model and prompt, and the two operations on the
  \<^verbatim>\<open>Question\<close> model. The lines a \<^verbatim>\<open>catch\<close> block writes with \<^verbatim>\<open>console.error\<close> are
  not recorded. A handler runs from its request to its response with no other request in
  between.
\<close>

datatype event =
    GenerateContent string string
  | FindById jsval
  | FindByIdAndUpdate jsval string

text \<open>
  The environment of the controller. The prompt templates of \<^verbatim>\<open>utils/prompt.js\<close> are
  parameters, and so is the provider: \<open>generateContent E model prompt\<close> is the response
  the promise resolves with, or the error it rejects with. \<open>db_fault E ev\<close> is the error a
  database operation rejects with, if it does.
\<close>

record env =
  questionAnswerPrompt :: "jsval \<Rightarrow> jsval \<Rightarrow> jsval \<Rightarrow> jsval \<Rightarrow> js_error + string"
  conceptExplainPrompt :: "jsval \<Rightarrow> js_error + string"
  generateContent :: "string \<Rightarrow> string \<Rightarrow> js_error + jsval"
  db_fault :: "event \<Rightarrow> js_error option"

text \<open>
  Modelled from the spec: the \<^verbatim>\<open>Question\<close> model of \<^verbatim>\<open>models/QuestionModel.js\<close>, which is
  not among the sources. A question record has an answer text field, which may be absent;
  the store gives the record of an identifier, if there is one.
\<close>

record question =
  qtext :: string
  answer :: "string option"

record world =
  questions :: "jsval \<rightharpoonup> question"
  trace :: "event list"

text \<open>
  A step of a handler: it may throw, and it may change the world. \<open>io_bind\<close> runs the
  next step after one that did not throw.
\<close>

type_synonym 'a io = "world \<Rightarrow> (js_error + 'a) \<times> world"

definition io_return :: "'a \<Rightarrow> 'a io" where
  "io_return x = (\<lambda>W. (Inr x, W))"

definition io_lift :: "js_error + 'a \<Rightarrow> 'a io" where
  "io_lift r = (\<lambda>W. (r, W))"

definition io_bind :: "'a io \<Rightarrow> ('a \<Rightarrow> 'b io) \<Rightarrow> 'b io" where
  "io_bind m f = (\<lambda>W. case m W of (Inl e, W') \<Rightarrow> (Inl e, W') | (Inr x, W') \<Rightarrow> f x W')"

definition log_event :: "event \<Rightarrow> world \<Rightarrow> world" where
  "log_event ev W = W\<lparr>trace := trace W @ [ev]\<rparr>"

definition ai_generateContent :: "env \<Rightarrow> string \<Rightarrow> string \<Rightarrow> jsval io" where
  "ai_generateContent E model prompt =
     (\<lambda>W. (generateContent E model prompt, log_event (GenerateContent model prompt) W))"

text \<open>
  Modelled from the spec: find-by-id gives the record or its absence; update-by-id sets
  the answer of the record and returns the updated record.
\<close>

definition Question_findById :: "env \<Rightarrow> jsval \<Rightarrow> question option io" where
  "Question_findById E ident =
     (\<lambda>W. (case db_fault E (FindById ident) of
              Some e \<Rightarrow> Inl e
            | None \<Rightarrow> Inr (questions W ident),
            log_event (FindById ident) W))"

definition Question_findByIdAndUpdate :: "env \<Rightarrow> jsval \<Rightarrow> string \<Rightarrow> question option io" where
  "Question_findByIdAndUpdate E ident newAnswer =
     (\<lambda>W. let W1 = log_event (FindByIdAndUpdate ident newAnswer) W in
           case db_fault E (FindByIdAndUpdate ident newAnswer) of
             Some e \<Rightarrow> (Inl e, W1)
           | None \<Rightarrow>
               (case questions W ident of
                  None \<Rightarrow> (Inr None, W1)
                | Some q \<Rightarrow>
                    (Inr (Some (q\<lparr>answer := Some newAnswer\<rparr>)),
                     W1\<lparr>questions := (questions W)(ident \<mapsto> q\<lparr>answer := Some newAnswer\<rparr>)\<rparr>)))"

text \<open>What \<^verbatim>\<open>res.status(n).json(body)\<close> sends.\<close>

datatype reply =
    Message string
  | Questions jsval
  | InvalidJSON string jsval jsval
  | Failed string string
  | Updated "question option"

record response =
  status :: nat
  body :: reply

text \<open>
  \<^verbatim>\<open>generateInterviewQuestions\<close>, lines 43 to 82: the \<^verbatim>\<open>try\<close> block, then the handler
  with its \<^verbatim>\<open>catch\<close>. \<open>req_body\<close> is \<^verbatim>\<open>req.body\<close>.
\<close>

definition generateInterviewQuestions_try :: "env \<Rightarrow> jsval \<Rightarrow> response io" where
  "generateInterviewQuestions_try E req_body =
     io_bind (io_lift (Get req_body ''role'')) (\<lambda>role.
     io_bind (io_lift (Get req_body ''experience'')) (\<lambda>experience.
     io_bind (io_lift (Get req_body ''topicsToFocus'')) (\<lambda>topicsToFocus.
     io_bind (io_lift (Get req_body ''numberOfQuestions'')) (\<lambda>numberOfQuestions.
     if \<not> truthy role \<or> \<not> truthy experience \<or> \<not> truthy topicsToFocus
        \<or> \<not> truthy numberOfQuestions
     then io_return \<lparr>status = 400, body = Message ''Missing required fields''\<rparr>
     else
     io_bind (io_lift (questionAnswerPrompt E role experience topicsToFocus numberOfQuestions))
       (\<lambda>prompt.
     io_bind (ai_generateContent E ''gemini-2.0-flash-lite'' prompt) (\<lambda>response.
     io_bind (io_lift (getGeminiText response)) (\<lambda>text.
     if \<not> truthy text
     then io_return \<lparr>status = 500, body = Message ''No response from Gemini''\<rparr>
     else
     io_bind (io_lift (tryParseJSON text)) (\<lambda>r.
     if truthy (json r)
     then io_return \<lparr>status = 200, body = Questions (json r)\<rparr>
     else io_return
            \<lparr>status = 500,
             body = InvalidJSON ''Gemini returned invalid JSON'' text (error r)\<rparr>))))))))"

definition generateInterviewQuestions :: "env \<Rightarrow> jsval \<Rightarrow> world \<Rightarrow> response \<times> world" where
  "generateInterviewQuestions E req_body W =
     (case generateInterviewQuestions_try E req_body W of
        (Inr res, W') \<Rightarrow> (res, W')
      | (Inl err, W') \<Rightarrow>
          (\<lparr>status = 500, body = Failed ''Failed to generate questions'' (message err)\<rparr>, W'))"

text \<open>
  Lines 106 to 111 of \<^verbatim>\<open>generateConceptExplanation\<close>: the explanation derived from the
  parsed value \<^verbatim>\<open>json\<close> and the extracted \<^verbatim>\<open>text\<close>.
\<close>

definition explanation_of :: "jsval \<Rightarrow> jsval \<Rightarrow> js_error + jsval" where
  "explanation_of json_v text =
     bind_err (OptGet json_v ''explanation'') (\<lambda>c.
       if truthy c then Get json_v ''explanation''
       else Inr (if typeof json_v = ''object'' then JSON_stringify json_v else text))"

text \<open>
  Lines 118 to 120: the template literal that makes \<^verbatim>\<open>newAnswer\<close> from the question found
  and the explanation.
\<close>

definition newAnswer :: "question \<Rightarrow> jsval \<Rightarrow> js_error + string" where
  "newAnswer existingQuestion explanation =
     bind_err (ToString explanation) (\<lambda>e.
       Inr ((case answer existingQuestion of
               None \<Rightarrow> []
             | Some a \<Rightarrow> if a \<noteq> [] then a else [])
            @ ''\<newline>\<newline>Explanation:\<newline>'' @ e))"

text \<open>
  Lines 113 to 127, the operation the specification calls \<^verbatim>\<open>appendExplanation\<close>: look the
  question up, answer 404 when there is none, else store the new answer.
\<close>

definition appendExplanation :: "env \<Rightarrow> jsval \<Rightarrow> jsval \<Rightarrow> response io" where
  "appendExplanation E questionId explanation =
     io_bind (Question_findById E questionId) (\<lambda>existingQuestion.
     case existingQuestion of
       None \<Rightarrow> io_return \<lparr>status = 404, body = Message ''Question not found''\<rparr>
     | Some q \<Rightarrow>
         io_bind (io_lift (newAnswer q explanation)) (\<lambda>a.
         io_bind (Question_findByIdAndUpdate E questionId a) (\<lambda>updatedQuestion.
         io_return \<lparr>status = 200, body = Updated updatedQuestion\<rparr>)))"

text \<open>\<^verbatim>\<open>generateConceptExplanation\<close>, lines 85 to 135.\<close>

definition generateConceptExplanation_try :: "env \<Rightarrow> jsval \<Rightarrow> response io" where
  "generateConceptExplanation_try E req_body =
     io_bind (io_lift (Get req_body ''questionId'')) (\<lambda>questionId.
     io_bind (io_lift (Get req_body ''question'')) (\<lambda>question.
     if \<not> truthy questionId \<or> \<not> truthy question
     then io_return \<lparr>status = 400, body = Message ''Missing required fields''\<rparr>
     else
     io_bind (io_lift (conceptExplainPrompt E question)) (\<lambda>prompt.
     io_bind (ai_generateContent E ''gemini-2.0-flash-lite'' prompt) (\<lambda>response.
     io_bind (io_lift (getGeminiText response)) (\<lambda>text.
     if \<not> truthy text
     then io_return \<lparr>status = 500, body = Message ''No response from Gemini''\<rparr>
     else
     io_bind (io_lift (tryParseJSON text)) (\<lambda>r.
     io_bind (io_lift (explanation_of (json r) text)) (\<lambda>explanation.
     appendExplanation E questionId explanation)))))))"

definition generateConceptExplanation :: "env \<Rightarrow> jsval \<Rightarrow> world \<Rightarrow> response \<times> world" where
  "generateConceptExplanation E req_body W =
     (case generateConceptExplanation_try E req_body W of
        (Inr res, W') \<Rightarrow> (res, W')
      | (Inl err, W') \<Rightarrow>
          (\<lparr>status = 500, body = Failed ''Failed to generate explanation'' (message err)\<rparr>, W'))"

section \<open>Concrete inputs\<close>

text \<open>A provider response that carries the text \<open>t\<close> at the expected path.\<close>

definition gemini_response :: "string \<Rightarrow> jsval" where
  "gemini_response t =
     JObj [(''candidates'',
            JArr [JObj [(''content'', JObj [(''parts'', JArr [JObj [(''text'', JStr t)]])])]])]"

text \<open>
  An environment whose provider answers every call with the given outcome, whose prompt
  templates give fixed prompts, and whose database never fails.
\<close>

definition stub_env :: "js_error + jsval \<Rightarrow> env" where
  "stub_env outcome =
     \<lparr>questionAnswerPrompt = (\<lambda>role experience topicsToFocus numberOfQuestions. Inr ''questions prompt''),
      conceptExplainPrompt = (\<lambda>question. Inr ''explain prompt''),
      generateContent = (\<lambda>model prompt. outcome),
      db_fault = (\<lambda>ev. None)\<rparr>"

text \<open>A store with one question, \<^verbatim>\<open>"q1"\<close>, and nothing done yet.\<close>

definition one_question :: "string option \<Rightarrow> world" where
  "one_question a =
     \<lparr>questions = [JStr ''q1'' \<mapsto> \<lparr>qtext = ''What is a closure?'', answer = a\<rparr>], trace = []\<rparr>"

text \<open>Request bodies of the two routes.\<close>

definition questions_request :: "jsval \<Rightarrow> jsval" where
  "questions_request n =
     JObj [(''role'', JStr ''Backend Developer''), (''experience'', JStr ''2''),
           (''topicsToFocus'', JStr ''SQL, Node''), (''numberOfQuestions'', n)]"

definition explanation_request :: "string \<Rightarrow> jsval" where
  "explanation_request ident =
     JObj [(''questionId'', JStr ident), (''question'', JStr ''What is a closure?'')]"

section \<open>Properties\<close>

subsection \<open>Property access and sequencing\<close>

lemma bind_err_simps [simp]:
  shows "bind_err (Inl e) f = Inl e" and "bind_err (Inr x) f = f x"
  unfolding bind_err_def by simp_all

lemma bind_err_eq_Inr: "bind_err m f = Inr y \<longleftrightarrow> (\<exists>x. m = Inr x \<and> f x = Inr y)"
  by (cases m) simp_all

lemma Get_total: "\<not> nullish v \<Longrightarrow> \<exists>w. Get v k = Inr w"
  by (cases v) (simp_all add: nullish_def)

lemma Get_Inr_not_nullish: "Get v k = Inr w \<Longrightarrow> \<not> nullish v"
  by (cases v) (simp_all add: nullish_def)

lemma truthy_not_nullish: "truthy v \<Longrightarrow> \<not> nullish v"
  by (cases v) (simp_all add: nullish_def)

lemma OptGet_total: "\<exists>w. OptGet v k = Inr w"
  using Get_total [of v k] by (auto simp: OptGet_def)

lemma OptGet_nullish: "nullish v \<Longrightarrow> OptGet v k = Inr JUndefined"
  by (simp add: OptGet_def)

lemma OptGet_Get: "Get v k = Inr w \<Longrightarrow> OptGet v k = Inr w"
  by (auto simp: OptGet_def dest: Get_Inr_not_nullish)

lemma OptGet_defined: "OptGet v k = Inr w \<Longrightarrow> w \<noteq> JUndefined \<Longrightarrow> Get v k = Inr w"
  by (auto simp: OptGet_def split: if_splits)

lemma index_of_key_0: "index_of_key ''0'' = Some 0"
  by (simp add: index_of_key_def is_digit_def int_of_digits_def)

subsection \<open>The text of a provider response\<close>

text \<open>The optional chain of the condition never throws on a response that is there.\<close>

lemma text_guard_total:
  assumes "\<not> nullish r"
  shows "\<exists>w. text_guard r = Inr w"
proof -
  from assms obtain c where c: "Get r ''candidates'' = Inr c"
    using Get_total by blast
  obtain c0 where c0: "OptGet c ''0'' = Inr c0" using OptGet_total by blast
  obtain ct where ct: "OptGet c0 ''content'' = Inr ct" using OptGet_total by blast
  obtain ps where ps: "OptGet ct ''parts'' = Inr ps" using OptGet_total by blast
  obtain p0 where p0: "OptGet ps ''0'' = Inr p0" using OptGet_total by blast
  obtain t where t: "OptGet p0 ''text'' = Inr t" using OptGet_total by blast
  show ?thesis by (simp add: text_guard_def c c0 ct ps p0 t)
qed

text \<open>
  When the chain gives a value other than \<^verbatim>\<open>undefined\<close>, every link of the path is there,
  and the plain member accesses of line 20 read the same value.
\<close>

lemma text_guard_defined:
  assumes "text_guard r = Inr t" and "t \<noteq> JUndefined"
  shows "text_read r = Inr t"
proof -
  from assms(1) obtain c c0 ct ps p0 where
    c: "Get r ''candidates'' = Inr c" and c0: "OptGet c ''0'' = Inr c0"
    and ct: "OptGet c0 ''content'' = Inr ct" and ps: "OptGet ct ''parts'' = Inr ps"
    and p0: "OptGet ps ''0'' = Inr p0" and t: "OptGet p0 ''text'' = Inr t"
    unfolding text_guard_def bind_err_eq_Inr by blast
  have g5: "Get p0 ''text'' = Inr t" using t assms(2) by (rule OptGet_defined)
  have "p0 \<noteq> JUndefined" using g5 by auto
  with p0 have g4: "Get ps ''0'' = Inr p0" by (rule OptGet_defined)
  have "ps \<noteq> JUndefined" using g4 by auto
  with ps have g3: "Get ct ''parts'' = Inr ps" by (rule OptGet_defined)
  have "ct \<noteq> JUndefined" using g3 by auto
  with ct have g2: "Get c0 ''content'' = Inr ct" by (rule OptGet_defined)
  have "c0 \<noteq> JUndefined" using g2 by auto
  with c0 have g1: "Get c ''0'' = Inr c0" by (rule OptGet_defined)
  show ?thesis by (simp add: text_read_def c g1 g2 g3 g4 g5)
qed

lemma text_read_guard: "text_read r = Inr t \<Longrightarrow> text_guard r = Inr t"
  unfolding text_read_def text_guard_def bind_err_eq_Inr
  by (blast intro: OptGet_Get)

lemma text_read_path:
  "text_read r = Inr t \<longleftrightarrow>
     (\<exists>c c0 ct ps p0. Get r ''candidates'' = Inr c \<and> Get c ''0'' = Inr c0
        \<and> Get c0 ''content'' = Inr ct \<and> Get ct ''parts'' = Inr ps
        \<and> Get ps ''0'' = Inr p0 \<and> Get p0 ''text'' = Inr t)"
  unfolding text_read_def bind_err_eq_Inr by blast

text \<open>
  The result of \<open>getGeminiText\<close>: the text at the path when the response and the text are
  truthy, \<^verbatim>\<open>null\<close> in every other case, and never an error.
\<close>

lemma getGeminiText_eq:
  "getGeminiText r =
     Inr (case text_read r of
            Inr t \<Rightarrow> if truthy r \<and> truthy t then t else JNull
          | Inl e \<Rightarrow> JNull)"
proof (cases "truthy r")
  case False
  then show ?thesis by (simp add: getGeminiText_def split: sum.splits)
next
  case True
  then obtain w where w: "text_guard r = Inr w"
    using text_guard_total truthy_not_nullish by blast
  show ?thesis
  proof (cases "truthy w")
    case tw: True
    then have "w \<noteq> JUndefined" by auto
    with w have "text_read r = Inr w" by (rule text_guard_defined)
    with True tw w show ?thesis by (simp add: getGeminiText_def)
  next
    case fw: False
    have "\<And>t. text_read r = Inr t \<Longrightarrow> \<not> truthy t"
      using text_read_guard w fw by fastforce
    with True fw w show ?thesis by (auto simp add: getGeminiText_def split: sum.splits)
  qed
qed

lemma getGeminiText_truthy_or_null:
  "getGeminiText r = Inr v \<Longrightarrow> v = JNull \<or> truthy v"
  by (auto simp: getGeminiText_eq split: sum.splits if_splits)

lemma text_read_missing:
  assumes "Get r ''candidates'' = Inr c"
    and "nullish c \<or> (\<exists>c0. Get c ''0'' = Inr c0 \<and> (nullish c0 \<or>
           (\<exists>ct. Get c0 ''content'' = Inr ct \<and> (nullish ct \<or>
             (\<exists>ps. Get ct ''parts'' = Inr ps \<and> (nullish ps \<or>
               (\<exists>p0. Get ps ''0'' = Inr p0 \<and> (nullish p0 \<or>
                  Get p0 ''text'' = Inr JUndefined))))))))"
  shows "text_read r = Inr JUndefined \<or> (\<exists>e. text_read r = Inl e)"
proof (cases "text_read r")
  case (Inl e)
  then show ?thesis by simp
next
  case (Inr t)
  then obtain c' c0 ct ps p0 where
    c': "Get r ''candidates'' = Inr c'" and c0: "Get c' ''0'' = Inr c0"
    and ct: "Get c0 ''content'' = Inr ct" and ps: "Get ct ''parts'' = Inr ps"
    and p0: "Get ps ''0'' = Inr p0" and t: "Get p0 ''text'' = Inr t"
    unfolding text_read_path by blast
  from c' assms(1) have cc: "c = c'" by simp
  have n1: "\<not> nullish c'" using c0 by (rule Get_Inr_not_nullish)
  have n2: "\<not> nullish c0" using ct by (rule Get_Inr_not_nullish)
  have n3: "\<not> nullish ct" using ps by (rule Get_Inr_not_nullish)
  have n4: "\<not> nullish ps" using p0 by (rule Get_Inr_not_nullish)
  have n5: "\<not> nullish p0" using t by (rule Get_Inr_not_nullish)
  from assms(2) have "Get p0 ''text'' = Inr JUndefined"
    unfolding cc using n1 n2 n3 n4 n5 c0 ct ps p0 by auto
  with t Inr show ?thesis by simp
qed

text \<open>
  A response in which the path is there is an object or an array, so it is truthy: a
  truthy text at the path is what \<open>getGeminiText\<close> returns.
\<close>

lemma Get_candidates_truthy:
  assumes "Get r ''candidates'' = Inr c" and "\<not> nullish c"
  shows "truthy r"
  using assms
  by (cases r) (auto simp: nullish_def index_of_key_def is_digit_def)

lemma getGeminiText_present:
  assumes "Get response ''candidates'' = Inr c" and "Get c ''0'' = Inr c0"
    and "Get c0 ''content'' = Inr ct" and "Get ct ''parts'' = Inr ps"
    and "Get ps ''0'' = Inr p0" and "Get p0 ''text'' = Inr t" and "truthy t"
  shows "getGeminiText response = Inr t"
proof -
  have r: "text_read response = Inr t"
    unfolding text_read_path using assms(1-6) by blast
  have "\<not> nullish c" using assms(2) by (rule Get_Inr_not_nullish)
  with assms(1) have "truthy response" by (rule Get_candidates_truthy)
  with r assms(7) show ?thesis
    by (simp add: getGeminiText_eq)
qed

text \<open>
  C6. For every provider response, \<open>getGeminiText\<close> returns a value and never throws. It
  returns \<^verbatim>\<open>null\<close> for a response that is \<^verbatim>\<open>null\<close> or \<^verbatim>\<open>undefined\<close>, that has no
  \<^verbatim>\<open>candidates\<close>, whose \<^verbatim>\<open>candidates\<close> is the empty array, or in which a link of the path
  first candidate, \<^verbatim>\<open>content\<close>, first part, \<^verbatim>\<open>text\<close> is missing. When it returns anything
  but \<^verbatim>\<open>null\<close>, that value is the text found at the path; and a text found at the path
  is returned when it is truthy, as every string but the empty one is.
\<close>

theorem getGeminiText_absence_is_null:
  "(\<exists>v. getGeminiText response = Inr v)
   \<and> getGeminiText JNull = Inr JNull
   \<and> getGeminiText JUndefined = Inr JNull
   \<and> (Get response ''candidates'' = Inr JUndefined \<longrightarrow> getGeminiText response = Inr JNull)
   \<and> (Get response ''candidates'' = Inr (JArr []) \<longrightarrow> getGeminiText response = Inr JNull)
   \<and> (\<forall>c. Get response ''candidates'' = Inr c \<and>
          (nullish c \<or> (\<exists>c0. Get c ''0'' = Inr c0 \<and> (nullish c0 \<or>
            (\<exists>ct. Get c0 ''content'' = Inr ct \<and> (nullish ct \<or>
              (\<exists>ps. Get ct ''parts'' = Inr ps \<and> (nullish ps \<or>
                (\<exists>p0. Get ps ''0'' = Inr p0 \<and> (nullish p0 \<or>
                   Get p0 ''text'' = Inr JUndefined)))))))))
        \<longrightarrow> getGeminiText response = Inr JNull)
   \<and> (\<forall>v. getGeminiText response = Inr v \<and> v \<noteq> JNull \<longrightarrow>
        (\<exists>c c0 ct ps p0. Get response ''candidates'' = Inr c \<and> Get c ''0'' = Inr c0
           \<and> Get c0 ''content'' = Inr ct \<and> Get ct ''parts'' = Inr ps
           \<and> Get ps ''0'' = Inr p0 \<and> Get p0 ''text'' = Inr v))
   \<and> (\<forall>c c0 ct ps p0 t. Get response ''candidates'' = Inr c \<and> Get c ''0'' = Inr c0
          \<and> Get c0 ''content'' = Inr ct \<and> Get ct ''parts'' = Inr ps
          \<and> Get ps ''0'' = Inr p0 \<and> Get p0 ''text'' = Inr t \<and> truthy t
        \<longrightarrow> getGeminiText response = Inr t)"
proof (intro conjI allI impI)
  show "\<exists>v. getGeminiText response = Inr v"
    by (simp add: getGeminiText_eq)
  show "getGeminiText JNull = Inr JNull"
    by (simp add: getGeminiText_def)
  show "getGeminiText JUndefined = Inr JNull"
    by (simp add: getGeminiText_def)
next
  assume "Get response ''candidates'' = Inr JUndefined"
  then have "text_read response = Inr JUndefined \<or> (\<exists>e. text_read response = Inl e)"
    by (rule text_read_missing) (simp add: nullish_def)
  then show "getGeminiText response = Inr JNull"
    by (auto simp: getGeminiText_eq)
next
  assume c: "Get response ''candidates'' = Inr (JArr [])"
  have "Get (JArr []) ''0'' = Inr JUndefined"
    by (simp add: index_of_key_0)
  with c have "text_read response = Inr JUndefined \<or> (\<exists>e. text_read response = Inl e)"
    by (intro text_read_missing [OF c]) (simp add: nullish_def)
  then show "getGeminiText response = Inr JNull"
    by (auto simp: getGeminiText_eq)
next
  fix c
  assume "Get response ''candidates'' = Inr c \<and>
          (nullish c \<or> (\<exists>c0. Get c ''0'' = Inr c0 \<and> (nullish c0 \<or>
            (\<exists>ct. Get c0 ''content'' = Inr ct \<and> (nullish ct \<or>
              (\<exists>ps. Get ct ''parts'' = Inr ps \<and> (nullish ps \<or>
                (\<exists>p0. Get ps ''0'' = Inr p0 \<and> (nullish p0 \<or>
                   Get p0 ''text'' = Inr JUndefined)))))))))"
  then have "text_read response = Inr JUndefined \<or> (\<exists>e. text_read response = Inl e)"
    using text_read_missing by blast
  then show "getGeminiText response = Inr JNull"
    by (auto simp: getGeminiText_eq)
next
  fix v
  assume "getGeminiText response = Inr v \<and> v \<noteq> JNull"
  then have "text_read response = Inr v"
    by (auto simp: getGeminiText_eq split: sum.splits if_splits)
  then show "\<exists>c c0 ct ps p0. Get response ''candidates'' = Inr c \<and> Get c ''0'' = Inr c0
           \<and> Get c0 ''content'' = Inr ct \<and> Get ct ''parts'' = Inr ps
           \<and> Get ps ''0'' = Inr p0 \<and> Get p0 ''text'' = Inr v"
    by (simp add: text_read_path)
next
  fix c c0 ct ps p0 t
  assume "Get response ''candidates'' = Inr c \<and> Get c ''0'' = Inr c0
          \<and> Get c0 ''content'' = Inr ct \<and> Get ct ''parts'' = Inr ps
          \<and> Get ps ''0'' = Inr p0 \<and> Get p0 ''text'' = Inr t \<and> truthy t"
  then show "getGeminiText response = Inr t"
    using getGeminiText_present by blast
qed

text \<open>
  The theorem at a response with an empty \<^verbatim>\<open>candidates\<close> array, which gives \<^verbatim>\<open>null\<close>, and
  at a response that carries the text \<^verbatim>\<open>hi\<close>, which is found at the path.
\<close>

theorem getGeminiText_absence_is_null_witness:
  "getGeminiText (JObj [(''candidates'', JArr [])]) = Inr JNull
   \<and> getGeminiText (gemini_response ''hi'') = Inr (JStr ''hi'')
   \<and> (\<exists>c c0 ct ps p0. Get (gemini_response ''hi'') ''candidates'' = Inr c \<and> Get c ''0'' = Inr c0
         \<and> Get c0 ''content'' = Inr ct \<and> Get ct ''parts'' = Inr ps
         \<and> Get ps ''0'' = Inr p0 \<and> Get p0 ''text'' = Inr (JStr ''hi''))"
proof -
  have e: "Get (JObj [(''candidates'', JArr [])]) ''candidates'' = Inr (JArr [])"
    by simp
  have h: "getGeminiText (gemini_response ''hi'') = Inr (JStr ''hi'')"
    by code_simp
  from getGeminiText_absence_is_null [of "JObj [(''candidates'', JArr [])]"] e
  have 1: "getGeminiText (JObj [(''candidates'', JArr [])]) = Inr JNull"
    by blast
  from getGeminiText_absence_is_null [of "gemini_response ''hi''"] h
  have 2: "\<exists>c c0 ct ps p0. Get (gemini_response ''hi'') ''candidates'' = Inr c \<and> Get c ''0'' = Inr c0
         \<and> Get c0 ''content'' = Inr ct \<and> Get ct ''parts'' = Inr ps
         \<and> Get ps ''0'' = Inr p0 \<and> Get p0 ''text'' = Inr (JStr ''hi'')"
    by blast
  from 1 h 2 show ?thesis by blast
qed

subsection \<open>JSON recovery\<close>

lemma tryParseJSON_run_string:
  "tryParseJSON_run (JStr text) =
     (case JSON_parse text of
        Inr v \<Rightarrow> ([text], Inr \<lparr>json = v, error = JNull\<rparr>)
      | Inl e \<Rightarrow>
          ([text, cleaned text],
           case JSON_parse (cleaned text) of
             Inr v \<Rightarrow> Inr \<lparr>json = v, error = JNull\<rparr>
           | Inl err \<Rightarrow> Inr \<lparr>json = JNull, error = JStr (message err)\<rparr>))"
  by (simp add: tryParseJSON_run_def split: sum.splits)

lemma tryParseJSON_string_total: "\<exists>r. tryParseJSON (JStr text) = Inr r"
  by (simp add: tryParseJSON_def tryParseJSON_run_string split: sum.splits)

text \<open>
  C5. For every text that is valid JSON, \<open>tryParseJSON\<close> returns the value of the first
  parse with no error; the text itself is the only text handed to \<^verbatim>\<open>JSON.parse\<close>, so the
  fence-stripping fallback is not applied.
\<close>

theorem tryParseJSON_valid_on_first_attempt:
  assumes "JSON_parse text = Inr v"
  shows "tryParseJSON (JStr text) = Inr \<lparr>json = v, error = JNull\<rparr>
         \<and> fst (tryParseJSON_run (JStr text)) = [text]"
  using assms by (simp add: tryParseJSON_def tryParseJSON_run_string)

text \<open>The theorem at the text \<^verbatim>\<open>{"a":1}\<close>, which is valid JSON.\<close>

theorem tryParseJSON_valid_on_first_attempt_witness:
  \<open>JSON_parse ''{"a":1}'' = Inr (JObj [(''a'', JNum 1 0)])
   \<and> tryParseJSON (JStr ''{"a":1}'') = Inr \<lparr>json = JObj [(''a'', JNum 1 0)], error = JNull\<rparr>
   \<and> fst (tryParseJSON_run (JStr ''{"a":1}'')) = [''{"a":1}'']\<close>
proof -
  have p: \<open>JSON_parse ''{"a":1}'' = Inr (JObj [(''a'', JNum 1 0)])\<close>
    by code_simp
  from p tryParseJSON_valid_on_first_attempt [OF p] show ?thesis
    by simp
qed

subsection \<open>Steps of a handler\<close>

lemma io_return_apply: "io_return x W = (Inr x, W)"
  by (simp add: io_return_def)

lemma io_bind_lift:
  "io_bind (io_lift r) f W = (case r of Inl e \<Rightarrow> (Inl e, W) | Inr x \<Rightarrow> f x W)"
  by (simp add: io_bind_def io_lift_def split: sum.splits)

lemma io_bind_generateContent:
  "io_bind (ai_generateContent E model prompt) f W =
     (case generateContent E model prompt of
        Inl e \<Rightarrow> (Inl e, log_event (GenerateContent model prompt) W)
      | Inr response \<Rightarrow> f response (log_event (GenerateContent model prompt) W))"
  by (simp add: io_bind_def ai_generateContent_def split: sum.splits)

lemma io_bind_findById:
  "io_bind (Question_findById E ident) f W =
     (case db_fault E (FindById ident) of
        Some e \<Rightarrow> (Inl e, log_event (FindById ident) W)
      | None \<Rightarrow> f (questions W ident) (log_event (FindById ident) W))"
  by (simp add: io_bind_def Question_findById_def split: option.splits)

lemma io_bind_findByIdAndUpdate:
  "io_bind (Question_findByIdAndUpdate E ident a) f W =
     (case db_fault E (FindByIdAndUpdate ident a) of
        Some e \<Rightarrow> (Inl e, log_event (FindByIdAndUpdate ident a) W)
      | None \<Rightarrow>
          (case questions W ident of
             None \<Rightarrow> f None (log_event (FindByIdAndUpdate ident a) W)
           | Some q \<Rightarrow>
               f (Some (q\<lparr>answer := Some a\<rparr>))
                 ((log_event (FindByIdAndUpdate ident a) W)
                    \<lparr>questions := (questions W)(ident \<mapsto> q\<lparr>answer := Some a\<rparr>)\<rparr>)))"
  by (simp add: io_bind_def Question_findByIdAndUpdate_def Let_def split: option.splits)

lemmas io_steps =
  io_return_apply io_bind_lift io_bind_generateContent io_bind_findById
  io_bind_findByIdAndUpdate

lemma questions_log_event [simp]: "questions (log_event ev W) = questions W"
  by (simp add: log_event_def)

lemma trace_log_event [simp]: "trace (log_event ev W) = trace W @ [ev]"
  by (simp add: log_event_def)

text \<open>
  \<open>generateInterviewQuestions\<close> after the destructuring of a request body that is there:
  the validation, and what follows it.
\<close>

lemma generateInterviewQuestions_fields:
  assumes "Get req_body ''role'' = Inr role"
    and "Get req_body ''experience'' = Inr experience"
    and "Get req_body ''topicsToFocus'' = Inr topicsToFocus"
    and "Get req_body ''numberOfQuestions'' = Inr numberOfQuestions"
  shows "generateInterviewQuestions_try E req_body W =
     (if truthy role \<and> truthy experience \<and> truthy topicsToFocus \<and> truthy numberOfQuestions
      then
        (case questionAnswerPrompt E role experience topicsToFocus numberOfQuestions of
           Inl e \<Rightarrow> (Inl e, W)
         | Inr prompt \<Rightarrow>
             (case generateContent E ''gemini-2.0-flash-lite'' prompt of
                Inl e \<Rightarrow> (Inl e, log_event (GenerateContent ''gemini-2.0-flash-lite'' prompt) W)
              | Inr response \<Rightarrow>
                  (case getGeminiText response of
                     Inl e \<Rightarrow> (Inl e, log_event (GenerateContent ''gemini-2.0-flash-lite'' prompt) W)
                   | Inr text \<Rightarrow>
                       (if \<not> truthy text
                        then Inr \<lparr>status = 500, body = Message ''No response from Gemini''\<rparr>
                        else
                          (case tryParseJSON text of
                             Inl e \<Rightarrow> Inl e
                           | Inr r \<Rightarrow>
                               if truthy (json r)
                               then Inr \<lparr>status = 200, body = Questions (json r)\<rparr>
                               else Inr \<lparr>status = 500,
                                         body = InvalidJSON ''Gemini returned invalid JSON'' text
                                                  (error r)\<rparr>),
                        log_event (GenerateContent ''gemini-2.0-flash-lite'' prompt) W))))
      else (Inr \<lparr>status = 400, body = Message ''Missing required fields''\<rparr>, W))"
  unfolding generateInterviewQuestions_try_def
  by (simp add: io_steps assms split: sum.splits)

text \<open>
  C4. When the strict parse of a text and the parse of the cleaned text both fail,
  \<open>tryParseJSON\<close> returns no value (\<^verbatim>\<open>json\<close> is \<^verbatim>\<open>null\<close>) with the message of the second
  attempt, the one on the cleaned text. The caller still has the text: in
  \<open>generateInterviewQuestions\<close>, a provider response with that text gives status 500 with
  the raw text and that message.
\<close>

theorem tryParseJSON_both_attempts_fail:
  assumes "JSON_parse text = Inl e1" and "JSON_parse (cleaned text) = Inl e2"
  shows "tryParseJSON (JStr text) = Inr \<lparr>json = JNull, error = JStr (message e2)\<rparr>
    \<and> fst (tryParseJSON_run (JStr text)) = [text, cleaned text]
    \<and> (Get req_body ''role'' = Inr role \<and> truthy role
          \<and> Get req_body ''experience'' = Inr experience \<and> truthy experience
          \<and> Get req_body ''topicsToFocus'' = Inr topicsToFocus \<and> truthy topicsToFocus
          \<and> Get req_body ''numberOfQuestions'' = Inr numberOfQuestions
          \<and> truthy numberOfQuestions
          \<and> questionAnswerPrompt E role experience topicsToFocus numberOfQuestions = Inr prompt
          \<and> generateContent E ''gemini-2.0-flash-lite'' prompt = Inr response
          \<and> getGeminiText response = Inr (JStr text)
          \<longrightarrow> generateInterviewQuestions E req_body W =
                (\<lparr>status = 500,
                  body = InvalidJSON ''Gemini returned invalid JSON'' (JStr text)
                           (JStr (message e2))\<rparr>,
                 log_event (GenerateContent ''gemini-2.0-flash-lite'' prompt) W))"
proof (intro conjI impI)
  show r: "tryParseJSON (JStr text) = Inr \<lparr>json = JNull, error = JStr (message e2)\<rparr>"
    using assms by (simp add: tryParseJSON_def tryParseJSON_run_string)
  show "fst (tryParseJSON_run (JStr text)) = [text, cleaned text]"
    using assms by (simp add: tryParseJSON_run_string)
  assume h: "Get req_body ''role'' = Inr role \<and> truthy role
          \<and> Get req_body ''experience'' = Inr experience \<and> truthy experience
          \<and> Get req_body ''topicsToFocus'' = Inr topicsToFocus \<and> truthy topicsToFocus
          \<and> Get req_body ''numberOfQuestions'' = Inr numberOfQuestions
          \<and> truthy numberOfQuestions
          \<and> questionAnswerPrompt E role experience topicsToFocus numberOfQuestions = Inr prompt
          \<and> generateContent E ''gemini-2.0-flash-lite'' prompt = Inr response
          \<and> getGeminiText response = Inr (JStr text)"
  then have "truthy (JStr text)"
    using getGeminiText_truthy_or_null [of response "JStr text"] by auto
  with h r have "generateInterviewQuestions_try E req_body W =
      (Inr \<lparr>status = 500,
            body = InvalidJSON ''Gemini returned invalid JSON'' (JStr text) (JStr (message e2))\<rparr>,
       log_event (GenerateContent ''gemini-2.0-flash-lite'' prompt) W)"
    by (simp add: generateInterviewQuestions_fields [of req_body role experience topicsToFocus
          numberOfQuestions])
  then show "generateInterviewQuestions E req_body W =
                (\<lparr>status = 500,
                  body = InvalidJSON ''Gemini returned invalid JSON'' (JStr text)
                           (JStr (message e2))\<rparr>,
                 log_event (GenerateContent ''gemini-2.0-flash-lite'' prompt) W)"
    by (simp add: generateInterviewQuestions_def)
qed

text \<open>
  The theorem at a fenced text that is not JSON inside: the first attempt fails on the
  whole text, the second on the cleaned text \<^verbatim>\<open>not json at all\<close>, and the error kept is
  the second one. The handler answers 500 with the raw text and that error.
\<close>

theorem tryParseJSON_both_attempts_fail_witness:
  \<open>cleaned ''```json\<newline>not json at all\<newline>```'' = ''not json at all''
   \<and> tryParseJSON (JStr ''```json\<newline>not json at all\<newline>```'') =
       Inr \<lparr>json = JNull, error = JStr ''"not json at all" is not valid JSON''\<rparr>
   \<and> fst (tryParseJSON_run (JStr ''```json\<newline>not json at all\<newline>```'')) =
       [''```json\<newline>not json at all\<newline>```'', ''not json at all'']
   \<and> generateInterviewQuestions
         (stub_env (Inr (gemini_response ''```json\<newline>not json at all\<newline>```'')))
         (questions_request (JNum 5 0)) \<lparr>questions = Map.empty, trace = []\<rparr> =
       (\<lparr>status = 500,
         body = InvalidJSON ''Gemini returned invalid JSON''
                  (JStr ''```json\<newline>not json at all\<newline>```'')
                  (JStr ''"not json at all" is not valid JSON'')\<rparr>,
        \<lparr>questions = Map.empty,
         trace = [GenerateContent ''gemini-2.0-flash-lite'' ''questions prompt'']\<rparr>)\<close>
proof -
  define t where \<open>t = ''```json\<newline>not json at all\<newline>```''\<close>
  define E where "E = stub_env (Inr (gemini_response t))"
  define W where "W = \<lparr>questions = Map.empty :: jsval \<rightharpoonup> question, trace = []\<rparr>"
  have c: "cleaned t = ''not json at all''"
    unfolding t_def by code_simp
  have p1: \<open>JSON_parse t = Inl (SyntaxError ([CHR 0x22] @ t @ [CHR 0x22] @ '' is not valid JSON''))\<close>
    unfolding t_def by code_simp
  have p2: \<open>JSON_parse (cleaned t) = Inl (SyntaxError ''"not json at all" is not valid JSON'')\<close>
    unfolding c by code_simp
  note th = tryParseJSON_both_attempts_fail [OF p1 p2,
      where E = E and W = W and req_body = "questions_request (JNum 5 0)"
        and role = "JStr ''Backend Developer''" and experience = "JStr ''2''"
        and topicsToFocus = "JStr ''SQL, Node''" and numberOfQuestions = "JNum 5 0"
        and prompt = "''questions prompt''" and response = "gemini_response t"]
  have g: "Get (questions_request (JNum 5 0)) ''role'' = Inr (JStr ''Backend Developer'')
      \<and> Get (questions_request (JNum 5 0)) ''experience'' = Inr (JStr ''2'')
      \<and> Get (questions_request (JNum 5 0)) ''topicsToFocus'' = Inr (JStr ''SQL, Node'')
      \<and> Get (questions_request (JNum 5 0)) ''numberOfQuestions'' = Inr (JNum 5 0)"
    by (simp add: questions_request_def)
  have q: "questionAnswerPrompt E (JStr ''Backend Developer'') (JStr ''2'') (JStr ''SQL, Node'')
             (JNum 5 0) = Inr ''questions prompt''"
    by (simp add: E_def stub_env_def)
  have r: "generateContent E ''gemini-2.0-flash-lite'' ''questions prompt'' = Inr (gemini_response t)"
    by (simp add: E_def stub_env_def)
  have x: "getGeminiText (gemini_response t) = Inr (JStr t)"
    unfolding t_def by code_simp
  from th g q r x have \<open>generateInterviewQuestions E (questions_request (JNum 5 0)) W =
       (\<lparr>status = 500,
         body = InvalidJSON ''Gemini returned invalid JSON'' (JStr t)
                  (JStr (message (SyntaxError ''"not json at all" is not valid JSON'')))\<rparr>,
        log_event (GenerateContent ''gemini-2.0-flash-lite'' ''questions prompt'') W)\<close>
    by simp
  with th c show ?thesis
    by (simp add: t_def E_def W_def log_event_def)
qed

subsection \<open>Fenced JSON\<close>












subsection \<open>Validation of a generation request\<close>

lemma generateInterviewQuestions_rejects_iff:
  assumes "Get req_body ''role'' = Inr role"
    and "Get req_body ''experience'' = Inr experience"
    and "Get req_body ''topicsToFocus'' = Inr topicsToFocus"
    and "Get req_body ''numberOfQuestions'' = Inr numberOfQuestions"
  shows "generateInterviewQuestions E req_body W =
           (\<lparr>status = 400, body = Message ''Missing required fields''\<rparr>, W)
         \<longleftrightarrow> \<not> (truthy role \<and> truthy experience \<and> truthy topicsToFocus
                \<and> truthy numberOfQuestions)"
  unfolding generateInterviewQuestions_def generateInterviewQuestions_fields [OF assms]
  by (auto split: sum.splits if_splits)

lemma generateInterviewQuestions_trace:
  assumes "Get req_body ''role'' = Inr role"
    and "Get req_body ''experience'' = Inr experience"
    and "Get req_body ''topicsToFocus'' = Inr topicsToFocus"
    and "Get req_body ''numberOfQuestions'' = Inr numberOfQuestions"
    and "truthy role" and "truthy experience" and "truthy topicsToFocus"
    and "truthy numberOfQuestions"
  shows "trace (snd (generateInterviewQuestions E req_body W)) =
           (case questionAnswerPrompt E role experience topicsToFocus numberOfQuestions of
              Inl e \<Rightarrow> trace W
            | Inr prompt \<Rightarrow> trace W @ [GenerateContent ''gemini-2.0-flash-lite'' prompt])"
    and "status (fst (generateInterviewQuestions E req_body W)) \<noteq> 400"
  unfolding generateInterviewQuestions_def
    generateInterviewQuestions_fields [OF assms(1) assms(2) assms(3) assms(4)]
  using assms(5-8) by (auto split: sum.splits if_splits)

text \<open>The values that \<^verbatim>\<open>!v\<close> refuses.\<close>

lemma falsy_cases:
  "\<not> truthy v \<longleftrightarrow> v \<in> {JUndefined, JNull, JBool False, JStr []} \<or> (\<exists>e. v = JNum 0 e)"
  by (cases v) auto

text \<open>
  Without a request body the destructuring of line 45 throws, and the \<^verbatim>\<open>catch\<close> block
  answers.
\<close>

lemma generateInterviewQuestions_no_body:
  assumes "nullish req_body"
  shows "\<exists>m. generateInterviewQuestions E req_body W =
           (\<lparr>status = 500, body = Failed ''Failed to generate questions'' m\<rparr>, W)"
  using assms
  unfolding nullish_def generateInterviewQuestions_def generateInterviewQuestions_try_def
  by (auto simp: io_steps)

text \<open>
  C7, as stated, fails. A \<^verbatim>\<open>topicsToFocus\<close> that is the empty array is an empty field, but
  it is truthy: line 47 lets the request pass, the provider is called and the answer is
  200. And in a request without a body every field is absent, but the destructuring of
  line 45 throws before the validation: the answer is 500, not 400.
\<close>

theorem generateInterviewQuestions_empty_array_counterexample:
  "fst (generateInterviewQuestions (stub_env (Inr (gemini_response ''[]'')))
          (JObj [(''role'', JStr ''Backend Developer''), (''experience'', JStr ''2''),
                 (''topicsToFocus'', JArr []), (''numberOfQuestions'', JNum 5 0)])
          \<lparr>questions = Map.empty, trace = []\<rparr>) =
     \<lparr>status = 200, body = Questions (JArr [])\<rparr>
   \<and> trace (snd (generateInterviewQuestions (stub_env (Inr (gemini_response ''[]'')))
          (JObj [(''role'', JStr ''Backend Developer''), (''experience'', JStr ''2''),
                 (''topicsToFocus'', JArr []), (''numberOfQuestions'', JNum 5 0)])
          \<lparr>questions = Map.empty, trace = []\<rparr>)) =
     [GenerateContent ''gemini-2.0-flash-lite'' ''questions prompt'']
   \<and> status (fst (generateInterviewQuestions (stub_env (Inr (gemini_response ''[]'')))
          JUndefined \<lparr>questions = Map.empty, trace = []\<rparr>)) = 500"
  by code_simp

text \<open>
  C7, amended. For a request to \<open>generateInterviewQuestions\<close> whose body is there, the four
  fields are read, and when one of them is falsy (\<^verbatim>\<open>undefined\<close>, \<^verbatim>\<open>null\<close>, \<^verbatim>\<open>false\<close>, the
  number 0 or the empty string) the answer is status 400 with the message
  \<^verbatim>\<open>Missing required fields\<close>, and the world is left as it was: nothing is added to the
  trace, so the provider is not called. When all four are truthy, and an empty array or
  object is, the request is not refused with 400 and the provider is called with the
  prompt built from the four values. When the body itself is \<^verbatim>\<open>undefined\<close> or \<^verbatim>\<open>null\<close>, the
  answer is status 500 with \<^verbatim>\<open>Failed to generate questions\<close>, again with the world as it was.
\<close>

theorem generateInterviewQuestions_falsy_field:
  "(nullish req_body \<longrightarrow>
      (\<exists>m. generateInterviewQuestions E req_body W =
             (\<lparr>status = 500, body = Failed ''Failed to generate questions'' m\<rparr>, W)))
   \<and> (\<not> nullish req_body \<longrightarrow>
      (\<exists>role experience topicsToFocus numberOfQuestions.
         Get req_body ''role'' = Inr role
         \<and> Get req_body ''experience'' = Inr experience
         \<and> Get req_body ''topicsToFocus'' = Inr topicsToFocus
         \<and> Get req_body ''numberOfQuestions'' = Inr numberOfQuestions
         \<and> (\<not> truthy role \<or> \<not> truthy experience \<or> \<not> truthy topicsToFocus
              \<or> \<not> truthy numberOfQuestions
            \<longrightarrow> generateInterviewQuestions E req_body W =
                  (\<lparr>status = 400, body = Message ''Missing required fields''\<rparr>, W))
         \<and> (truthy role \<and> truthy experience \<and> truthy topicsToFocus
              \<and> truthy numberOfQuestions
            \<longrightarrow> status (fst (generateInterviewQuestions E req_body W)) \<noteq> 400
                \<and> (\<forall>prompt.
                     questionAnswerPrompt E role experience topicsToFocus numberOfQuestions
                       = Inr prompt
                     \<longrightarrow> trace (snd (generateInterviewQuestions E req_body W)) =
                           trace W @ [GenerateContent ''gemini-2.0-flash-lite'' prompt]))))
   \<and> (\<forall>v. \<not> truthy v \<longleftrightarrow>
            v \<in> {JUndefined, JNull, JBool False, JStr []} \<or> (\<exists>e. v = JNum 0 e))
   \<and> truthy (JArr []) \<and> truthy (JObj [])"
proof (intro conjI impI allI)
  assume "nullish req_body"
  then show "\<exists>m. generateInterviewQuestions E req_body W =
      (\<lparr>status = 500, body = Failed ''Failed to generate questions'' m\<rparr>, W)"
    by (rule generateInterviewQuestions_no_body)
next
  assume n: "\<not> nullish req_body"
  obtain role where g1: "Get req_body ''role'' = Inr role"
    using Get_total [OF n] by blast
  obtain experience where g2: "Get req_body ''experience'' = Inr experience"
    using Get_total [OF n] by blast
  obtain topicsToFocus where g3: "Get req_body ''topicsToFocus'' = Inr topicsToFocus"
    using Get_total [OF n] by blast
  obtain numberOfQuestions where
    g4: "Get req_body ''numberOfQuestions'' = Inr numberOfQuestions"
    using Get_total [OF n] by blast
  note iff = generateInterviewQuestions_rejects_iff [OF g1 g2 g3 g4, of E W]
  have r: "\<not> truthy role \<or> \<not> truthy experience \<or> \<not> truthy topicsToFocus
              \<or> \<not> truthy numberOfQuestions
            \<longrightarrow> generateInterviewQuestions E req_body W =
                  (\<lparr>status = 400, body = Message ''Missing required fields''\<rparr>, W)"
    using iff by blast
  have p: "truthy role \<and> truthy experience \<and> truthy topicsToFocus
              \<and> truthy numberOfQuestions
            \<longrightarrow> status (fst (generateInterviewQuestions E req_body W)) \<noteq> 400
                \<and> (\<forall>prompt.
                     questionAnswerPrompt E role experience topicsToFocus numberOfQuestions
                       = Inr prompt
                     \<longrightarrow> trace (snd (generateInterviewQuestions E req_body W)) =
                           trace W @ [GenerateContent ''gemini-2.0-flash-lite'' prompt])"
  proof (intro impI conjI allI)
    assume t: "truthy role \<and> truthy experience \<and> truthy topicsToFocus
              \<and> truthy numberOfQuestions"
    note tr = generateInterviewQuestions_trace [OF g1 g2 g3 g4, of E W]
    from t show "status (fst (generateInterviewQuestions E req_body W)) \<noteq> 400"
      using tr(2) by blast
    fix prompt
    assume "questionAnswerPrompt E role experience topicsToFocus numberOfQuestions = Inr prompt"
    with t show "trace (snd (generateInterviewQuestions E req_body W)) =
        trace W @ [GenerateContent ''gemini-2.0-flash-lite'' prompt]"
      using tr(1) by simp
  qed
  from g1 g2 g3 g4 r p show "\<exists>role experience topicsToFocus numberOfQuestions.
         Get req_body ''role'' = Inr role
         \<and> Get req_body ''experience'' = Inr experience
         \<and> Get req_body ''topicsToFocus'' = Inr topicsToFocus
         \<and> Get req_body ''numberOfQuestions'' = Inr numberOfQuestions
         \<and> (\<not> truthy role \<or> \<not> truthy experience \<or> \<not> truthy topicsToFocus
              \<or> \<not> truthy numberOfQuestions
            \<longrightarrow> generateInterviewQuestions E req_body W =
                  (\<lparr>status = 400, body = Message ''Missing required fields''\<rparr>, W))
         \<and> (truthy role \<and> truthy experience \<and> truthy topicsToFocus
              \<and> truthy numberOfQuestions
            \<longrightarrow> status (fst (generateInterviewQuestions E req_body W)) \<noteq> 400
                \<and> (\<forall>prompt.
                     questionAnswerPrompt E role experience topicsToFocus numberOfQuestions
                       = Inr prompt
                     \<longrightarrow> trace (snd (generateInterviewQuestions E req_body W)) =
                           trace W @ [GenerateContent ''gemini-2.0-flash-lite'' prompt]))"
    by blast
next
  fix v
  show "\<not> truthy v \<longleftrightarrow>
      v \<in> {JUndefined, JNull, JBool False, JStr []} \<or> (\<exists>e. v = JNum 0 e)"
    by (rule falsy_cases)
qed simp_all

text \<open>
  The theorem at a body with an empty \<^verbatim>\<open>experience\<close> and no \<^verbatim>\<open>topicsToFocus\<close>, with a
  provider that would answer: the request is refused and the trace stays empty. And at a
  request without a body: 500, and the world as it was.
\<close>

theorem generateInterviewQuestions_falsy_field_witness:
  "generateInterviewQuestions (stub_env (Inr (gemini_response ''[]'')))
     (JObj [(''role'', JStr ''Backend Developer''), (''experience'', JStr []),
            (''numberOfQuestions'', JNum 5 0)])
     \<lparr>questions = Map.empty, trace = []\<rparr> =
   (\<lparr>status = 400, body = Message ''Missing required fields''\<rparr>,
    \<lparr>questions = Map.empty, trace = []\<rparr>)
   \<and> status (fst (generateInterviewQuestions (stub_env (Inr (gemini_response ''[]'')))
         JUndefined \<lparr>questions = Map.empty, trace = []\<rparr>)) = 500
   \<and> snd (generateInterviewQuestions (stub_env (Inr (gemini_response ''[]'')))
         JUndefined \<lparr>questions = Map.empty, trace = []\<rparr>) =
       \<lparr>questions = Map.empty, trace = []\<rparr>"
proof -
  define E where "E = stub_env (Inr (gemini_response ''[]''))"
  define W where "W = \<lparr>questions = Map.empty :: jsval \<rightharpoonup> question, trace = []\<rparr>"
  define b where "b = JObj [(''role'', JStr ''Backend Developer''), (''experience'', JStr []),
            (''numberOfQuestions'', JNum 5 0)]"
  have nn: "\<not> nullish b"
    by (simp add: b_def nullish_def)
  have g2: "Get b ''experience'' = Inr (JStr [])"
    by (simp add: b_def)
  from generateInterviewQuestions_falsy_field [of b E W, THEN conjunct2, THEN conjunct1,
      rule_format, OF nn]
  obtain role experience topicsToFocus numberOfQuestions where
    e: "Get b ''experience'' = Inr experience"
    and i: "\<not> truthy role \<or> \<not> truthy experience \<or> \<not> truthy topicsToFocus
              \<or> \<not> truthy numberOfQuestions
            \<longrightarrow> generateInterviewQuestions E b W =
                  (\<lparr>status = 400, body = Message ''Missing required fields''\<rparr>, W)"
    by blast
  from e g2 have "experience = JStr []" by simp
  then have "\<not> truthy experience" by simp
  with i have a: "generateInterviewQuestions E b W =
      (\<lparr>status = 400, body = Message ''Missing required fields''\<rparr>, W)"
    by blast
  have "nullish JUndefined" by (simp add: nullish_def)
  with generateInterviewQuestions_falsy_field [of JUndefined E W, THEN conjunct1]
  obtain m where "generateInterviewQuestions E JUndefined W =
      (\<lparr>status = 500, body = Failed ''Failed to generate questions'' m\<rparr>, W)"
    by blast
  then have c: "status (fst (generateInterviewQuestions E JUndefined W)) = 500
      \<and> snd (generateInterviewQuestions E JUndefined W) = W"
    by simp
  from a c show ?thesis
    unfolding E_def W_def b_def by simp
qed

text \<open>
  C8, as stated, fails: a \<^verbatim>\<open>numberOfQuestions\<close> that is the number 0 is present and
  numeric, and the request is refused with status 400 before the provider is called.
\<close>

theorem generateInterviewQuestions_zero_count_counterexample:
  "generateInterviewQuestions (stub_env (Inr (gemini_response ''[]'')))
     (questions_request (JNum 0 0)) \<lparr>questions = Map.empty, trace = []\<rparr> =
   (\<lparr>status = 400, body = Message ''Missing required fields''\<rparr>,
    \<lparr>questions = Map.empty, trace = []\<rparr>)"
proof -
  have g: "Get (questions_request (JNum 0 0)) ''role'' = Inr (JStr ''Backend Developer'')"
    "Get (questions_request (JNum 0 0)) ''experience'' = Inr (JStr ''2'')"
    "Get (questions_request (JNum 0 0)) ''topicsToFocus'' = Inr (JStr ''SQL, Node'')"
    "Get (questions_request (JNum 0 0)) ''numberOfQuestions'' = Inr (JNum 0 0)"
    by (simp_all add: questions_request_def)
  show ?thesis
    using generateInterviewQuestions_rejects_iff [OF g] by simp
qed

text \<open>
  C8, amended. The four fields are validated by truthiness only. When all four are truthy
  (none is \<^verbatim>\<open>undefined\<close>, \<^verbatim>\<open>null\<close>, \<^verbatim>\<open>false\<close>, the number 0 or the empty string), whatever
  their values and types, the request is not refused as incomplete: the handler builds
  the prompt from the four values and, when the template gives a prompt, calls the
  provider with it. A \<^verbatim>\<open>numberOfQuestions\<close> that is a number is truthy exactly when it is
  not zero, so any nonzero number passes and the number 0 is refused like a missing field.
\<close>

theorem generateInterviewQuestions_truthy_fields_proceed:
  assumes "Get req_body ''role'' = Inr role"
    and "Get req_body ''experience'' = Inr experience"
    and "Get req_body ''topicsToFocus'' = Inr topicsToFocus"
    and "Get req_body ''numberOfQuestions'' = Inr numberOfQuestions"
  shows "(truthy role \<and> truthy experience \<and> truthy topicsToFocus \<and> truthy numberOfQuestions
          \<longrightarrow> status (fst (generateInterviewQuestions E req_body W)) \<noteq> 400
              \<and> (\<forall>prompt.
                   questionAnswerPrompt E role experience topicsToFocus numberOfQuestions
                     = Inr prompt
                   \<longrightarrow> trace (snd (generateInterviewQuestions E req_body W)) =
                         trace W @ [GenerateContent ''gemini-2.0-flash-lite'' prompt]))
    \<and> (\<not> (truthy role \<and> truthy experience \<and> truthy topicsToFocus \<and> truthy numberOfQuestions)
          \<longrightarrow> generateInterviewQuestions E req_body W =
                (\<lparr>status = 400, body = Message ''Missing required fields''\<rparr>, W))
    \<and> (\<forall>m e. numberOfQuestions = JNum m e \<longrightarrow> truthy numberOfQuestions = (m \<noteq> 0))"
proof (intro conjI impI allI)
  assume t: "truthy role \<and> truthy experience \<and> truthy topicsToFocus \<and> truthy numberOfQuestions"
  note tr = generateInterviewQuestions_trace [OF assms, of E W]
  from t show "status (fst (generateInterviewQuestions E req_body W)) \<noteq> 400"
    using tr(2) by blast
  fix prompt
  assume "questionAnswerPrompt E role experience topicsToFocus numberOfQuestions = Inr prompt"
  with t show "trace (snd (generateInterviewQuestions E req_body W)) =
      trace W @ [GenerateContent ''gemini-2.0-flash-lite'' prompt]"
    using tr(1) by simp
next
  assume "\<not> (truthy role \<and> truthy experience \<and> truthy topicsToFocus
      \<and> truthy numberOfQuestions)"
  then show "generateInterviewQuestions E req_body W =
      (\<lparr>status = 400, body = Message ''Missing required fields''\<rparr>, W)"
    using generateInterviewQuestions_rejects_iff [OF assms] by blast
next
  fix m e
  assume "numberOfQuestions = JNum m e"
  then show "truthy numberOfQuestions = (m \<noteq> 0)" by simp
qed

text \<open>
  The theorem at a request for \<open>- 3\<close> questions, with a provider that answers with an empty
  JSON array: the count is not checked, the provider is called, and the answer is sent
  with status 200.
\<close>

theorem generateInterviewQuestions_truthy_fields_proceed_witness:
  "status (fst (generateInterviewQuestions (stub_env (Inr (gemini_response ''[]'')))
                  (questions_request (JNum (- 3) 0)) \<lparr>questions = Map.empty, trace = []\<rparr>)) \<noteq> 400
   \<and> trace (snd (generateInterviewQuestions (stub_env (Inr (gemini_response ''[]'')))
                  (questions_request (JNum (- 3) 0)) \<lparr>questions = Map.empty, trace = []\<rparr>)) =
       [GenerateContent ''gemini-2.0-flash-lite'' ''questions prompt'']
   \<and> fst (generateInterviewQuestions (stub_env (Inr (gemini_response ''[]'')))
            (questions_request (JNum (- 3) 0)) \<lparr>questions = Map.empty, trace = []\<rparr>) =
       \<lparr>status = 200, body = Questions (JArr [])\<rparr>"
proof -
  define E where "E = stub_env (Inr (gemini_response ''[]''))"
  define W where "W = \<lparr>questions = Map.empty :: jsval \<rightharpoonup> question, trace = []\<rparr>"
  have g: "Get (questions_request (JNum (- 3) 0)) ''role'' = Inr (JStr ''Backend Developer'')"
    "Get (questions_request (JNum (- 3) 0)) ''experience'' = Inr (JStr ''2'')"
    "Get (questions_request (JNum (- 3) 0)) ''topicsToFocus'' = Inr (JStr ''SQL, Node'')"
    "Get (questions_request (JNum (- 3) 0)) ''numberOfQuestions'' = Inr (JNum (- 3) 0)"
    by (simp_all add: questions_request_def)
  have q: "questionAnswerPrompt E (JStr ''Backend Developer'') (JStr ''2'') (JStr ''SQL, Node'')
             (JNum (- 3) 0) = Inr ''questions prompt''"
    by (simp add: E_def stub_env_def)
  note th = generateInterviewQuestions_truthy_fields_proceed [OF g, of E W]
  from th q have a: "status (fst (generateInterviewQuestions E (questions_request (JNum (- 3) 0)) W))
      \<noteq> 400"
    and b: "trace (snd (generateInterviewQuestions E (questions_request (JNum (- 3) 0)) W)) =
      trace W @ [GenerateContent ''gemini-2.0-flash-lite'' ''questions prompt'']"
    by simp_all
  have c: "fst (generateInterviewQuestions E (questions_request (JNum (- 3) 0)) W) =
       \<lparr>status = 200, body = Questions (JArr [])\<rparr>"
    unfolding E_def W_def by code_simp
  from a b c show ?thesis
    by (simp add: E_def W_def)
qed

subsection \<open>The explanation and its persistence\<close>

text \<open>The derivation of the explanation never throws.\<close>

lemma explanation_of_eq:
  "\<exists>c. OptGet json_v ''explanation'' = Inr c
       \<and> explanation_of json_v text =
           Inr (if truthy c then c
                else if typeof json_v = ''object'' then JSON_stringify json_v else text)"
proof -
  obtain c where c: "OptGet json_v ''explanation'' = Inr c"
    using OptGet_total by blast
  have "truthy c \<Longrightarrow> Get json_v ''explanation'' = Inr c"
    using c by (intro OptGet_defined) auto
  with c show ?thesis
    by (auto simp: explanation_of_def)
qed

lemma explanation_of_total: "\<exists>x. explanation_of json_v text = Inr x"
  using explanation_of_eq by blast

text \<open>
  When both parses fail, \<^verbatim>\<open>json\<close> is \<^verbatim>\<open>null\<close>, whose \<^verbatim>\<open>typeof\<close> is \<^verbatim>\<open>"object"\<close>: the
  explanation is the string \<^verbatim>\<open>null\<close>, whatever the text.
\<close>

lemma explanation_of_null: "explanation_of JNull text = Inr (JStr ''null'')"
  by (simp add: explanation_of_def OptGet_def nullish_def JSON_stringify_def)

lemma explanation_of_unparsable:
  assumes "JSON_parse s = Inl e1" and "JSON_parse (cleaned s) = Inl e2"
    and "tryParseJSON (JStr s) = Inr r"
  shows "explanation_of (json r) (JStr s) = Inr (JStr ''null'')"
  using assms by (auto simp: tryParseJSON_def tryParseJSON_run_string explanation_of_null)

lemma appendExplanation_eq:
  "appendExplanation E questionId explanation W =
     (case db_fault E (FindById questionId) of
        Some e \<Rightarrow> (Inl e, log_event (FindById questionId) W)
      | None \<Rightarrow>
          (case questions W questionId of
             None \<Rightarrow>
               (Inr \<lparr>status = 404, body = Message ''Question not found''\<rparr>,
                log_event (FindById questionId) W)
           | Some q \<Rightarrow>
               (case newAnswer q explanation of
                  Inl e \<Rightarrow> (Inl e, log_event (FindById questionId) W)
                | Inr a \<Rightarrow>
                    (case db_fault E (FindByIdAndUpdate questionId a) of
                       Some e \<Rightarrow>
                         (Inl e,
                          log_event (FindByIdAndUpdate questionId a)
                            (log_event (FindById questionId) W))
                     | None \<Rightarrow>
                         (Inr \<lparr>status = 200,
                               body = Updated (Some (q\<lparr>answer := Some a\<rparr>))\<rparr>,
                          (log_event (FindByIdAndUpdate questionId a)
                             (log_event (FindById questionId) W))
                            \<lparr>questions :=
                               (questions W)(questionId \<mapsto> q\<lparr>answer := Some a\<rparr>)\<rparr>)))))"
  unfolding appendExplanation_def
  by (simp add: io_steps split: option.splits sum.splits)

lemma generateConceptExplanation_fields:
  assumes "Get req_body ''questionId'' = Inr questionId"
    and "Get req_body ''question'' = Inr question"
  shows "generateConceptExplanation_try E req_body W =
     (if truthy questionId \<and> truthy question
      then
        (case conceptExplainPrompt E question of
           Inl e \<Rightarrow> (Inl e, W)
         | Inr prompt \<Rightarrow>
             (case generateContent E ''gemini-2.0-flash-lite'' prompt of
                Inl e \<Rightarrow> (Inl e, log_event (GenerateContent ''gemini-2.0-flash-lite'' prompt) W)
              | Inr response \<Rightarrow>
                  (case getGeminiText response of
                     Inl e \<Rightarrow> (Inl e, log_event (GenerateContent ''gemini-2.0-flash-lite'' prompt) W)
                   | Inr text \<Rightarrow>
                       if \<not> truthy text
                       then (Inr \<lparr>status = 500, body = Message ''No response from Gemini''\<rparr>,
                             log_event (GenerateContent ''gemini-2.0-flash-lite'' prompt) W)
                       else
                         (case tryParseJSON text of
                            Inl e \<Rightarrow>
                              (Inl e, log_event (GenerateContent ''gemini-2.0-flash-lite'' prompt) W)
                          | Inr r \<Rightarrow>
                              (case explanation_of (json r) text of
                                 Inl e \<Rightarrow>
                                   (Inl e,
                                    log_event (GenerateContent ''gemini-2.0-flash-lite'' prompt) W)
                               | Inr explanation \<Rightarrow>
                                   appendExplanation E questionId explanation
                                     (log_event (GenerateContent ''gemini-2.0-flash-lite'' prompt)
                                        W))))))
      else (Inr \<lparr>status = 400, body = Message ''Missing required fields''\<rparr>, W))"
  unfolding generateConceptExplanation_try_def
  by (simp add: io_steps assms split: sum.splits)

text \<open>
  C2. For a question that is stored and an explanation that is a string, with a database
  that does not fail, \<open>appendExplanation\<close> stores as the answer of that question the prior
  answer (the empty string when there is none), the separator of two line breaks,
  \<^verbatim>\<open>Explanation:\<close> and a line break, and the explanation. The prior answer is a prefix of
  the new one. With the prior answer \<^verbatim>\<open>A\<close> and the explanation \<^verbatim>\<open>B\<close> the stored answer is
  \<^verbatim>\<open>A\<close>, the separator and \<^verbatim>\<open>B\<close>; with no prior answer, or an empty one, it is the separator
  and \<^verbatim>\<open>B\<close>.
\<close>

theorem appendExplanation_appends_to_answer:
  assumes "questions W questionId = Some q"
    and "a' = (case answer q of None \<Rightarrow> [] | Some a \<Rightarrow> a)
              @ ''\<newline>\<newline>Explanation:\<newline>'' @ b"
    and "db_fault E (FindById questionId) = None"
    and "db_fault E (FindByIdAndUpdate questionId a') = None"
  shows "fst (appendExplanation E questionId (JStr b) W) =
           Inr \<lparr>status = 200, body = Updated (Some (q\<lparr>answer := Some a'\<rparr>))\<rparr>
    \<and> questions (snd (appendExplanation E questionId (JStr b) W)) =
        (questions W)(questionId \<mapsto> q\<lparr>answer := Some a'\<rparr>)
    \<and> trace (snd (appendExplanation E questionId (JStr b) W)) =
        trace W @ [FindById questionId, FindByIdAndUpdate questionId a']
    \<and> prefix (case answer q of None \<Rightarrow> [] | Some a \<Rightarrow> a) a'
    \<and> (answer q = Some ''A'' \<and> b = ''B'' \<longrightarrow> a' = ''A\<newline>\<newline>Explanation:\<newline>B'')
    \<and> ((answer q = None \<or> answer q = Some []) \<and> b = ''B''
          \<longrightarrow> a' = ''\<newline>\<newline>Explanation:\<newline>B'')"
proof -
  have n: "newAnswer q (JStr b) = Inr a'"
    by (simp add: newAnswer_def assms(2) split: option.splits)
  have "appendExplanation E questionId (JStr b) W =
     (Inr \<lparr>status = 200, body = Updated (Some (q\<lparr>answer := Some a'\<rparr>))\<rparr>,
      (log_event (FindByIdAndUpdate questionId a') (log_event (FindById questionId) W))
        \<lparr>questions := (questions W)(questionId \<mapsto> q\<lparr>answer := Some a'\<rparr>)\<rparr>)"
    by (simp add: appendExplanation_eq assms(1) assms(3) assms(4) n)
  then show ?thesis
    by (auto simp: assms(2))
qed

text \<open>
  The theorem at the stored question \<^verbatim>\<open>q1\<close> with the answer \<^verbatim>\<open>A\<close>, and with no answer, and
  the explanation \<^verbatim>\<open>B\<close>. The handler stores the same answer when the provider gives that
  explanation.
\<close>

theorem appendExplanation_appends_to_answer_witness:
  \<open>questions (snd (appendExplanation (stub_env (Inl (Rejected ''unused''))) (JStr ''q1'')
                    (JStr ''B'') (one_question (Some ''A'')))) (JStr ''q1'') =
     Some \<lparr>qtext = ''What is a closure?'', answer = Some ''A\<newline>\<newline>Explanation:\<newline>B''\<rparr>
   \<and> questions (snd (appendExplanation (stub_env (Inl (Rejected ''unused''))) (JStr ''q1'')
                    (JStr ''B'') (one_question None))) (JStr ''q1'') =
     Some \<lparr>qtext = ''What is a closure?'', answer = Some ''\<newline>\<newline>Explanation:\<newline>B''\<rparr>
   \<and> questions (snd (generateConceptExplanation
                       (stub_env (Inr (gemini_response ''{"explanation":"B"}'')))
                       (explanation_request ''q1'') (one_question (Some ''A'')))) (JStr ''q1'') =
     Some \<lparr>qtext = ''What is a closure?'', answer = Some ''A\<newline>\<newline>Explanation:\<newline>B''\<rparr>\<close>
proof -
  define E where "E = stub_env (Inl (Rejected ''unused''))"
  have f: "\<And>ev. db_fault E ev = None"
    by (simp add: E_def stub_env_def)
  have s1: "questions (one_question (Some ''A'')) (JStr ''q1'') =
      Some \<lparr>qtext = ''What is a closure?'', answer = Some ''A''\<rparr>"
    by (simp add: one_question_def)
  have s2: "questions (one_question None) (JStr ''q1'') =
      Some \<lparr>qtext = ''What is a closure?'', answer = None\<rparr>"
    by (simp add: one_question_def)
  have a: "''A\<newline>\<newline>Explanation:\<newline>B'' =
      (case answer \<lparr>qtext = ''What is a closure?'', answer = Some ''A''\<rparr> of
         None \<Rightarrow> [] | Some a \<Rightarrow> a) @ ''\<newline>\<newline>Explanation:\<newline>'' @ ''B''"
    by simp
  have b: "''\<newline>\<newline>Explanation:\<newline>B'' =
      (case answer \<lparr>qtext = ''What is a closure?'', answer = None\<rparr> of
         None \<Rightarrow> [] | Some a \<Rightarrow> a) @ ''\<newline>\<newline>Explanation:\<newline>'' @ ''B''"
    by simp
  note t1 = appendExplanation_appends_to_answer [OF s1 a f f, THEN conjunct2, THEN conjunct1]
  note t2 = appendExplanation_appends_to_answer [OF s2 b f f, THEN conjunct2, THEN conjunct1]
  have h: \<open>questions (snd (generateConceptExplanation
                       (stub_env (Inr (gemini_response ''{"explanation":"B"}'')))
                       (explanation_request ''q1'') (one_question (Some ''A'')))) (JStr ''q1'') =
     Some \<lparr>qtext = ''What is a closure?'', answer = Some ''A\<newline>\<newline>Explanation:\<newline>B''\<rparr>\<close>
    by code_simp
  show ?thesis
    unfolding E_def [symmetric] t1 t2 using h by simp
qed

subsection \<open>A question that is not stored, and the order of the effects\<close>

text \<open>
  What \<open>generateConceptExplanation\<close> does for a valid request whose prompt was built, by
  the outcome of the provider call: the call is the first effect in every case.
\<close>

lemma generateConceptExplanation_cases:
  assumes "Get req_body ''questionId'' = Inr questionId"
    and "Get req_body ''question'' = Inr question"
    and "truthy questionId" and "truthy question"
    and "conceptExplainPrompt E question = Inr prompt"
  shows "generateConceptExplanation E req_body W =
     (case generateContent E ''gemini-2.0-flash-lite'' prompt of
        Inl e \<Rightarrow>
          (\<lparr>status = 500, body = Failed ''Failed to generate explanation'' (message e)\<rparr>,
           log_event (GenerateContent ''gemini-2.0-flash-lite'' prompt) W)
      | Inr response \<Rightarrow>
          (case getGeminiText response of
             Inl e \<Rightarrow>
               (\<lparr>status = 500, body = Failed ''Failed to generate explanation'' (message e)\<rparr>,
                log_event (GenerateContent ''gemini-2.0-flash-lite'' prompt) W)
           | Inr text \<Rightarrow>
               if \<not> truthy text
               then (\<lparr>status = 500, body = Message ''No response from Gemini''\<rparr>,
                     log_event (GenerateContent ''gemini-2.0-flash-lite'' prompt) W)
               else
                 (case bind_err (tryParseJSON text) (\<lambda>r. explanation_of (json r) text) of
                    Inl e \<Rightarrow>
                      (\<lparr>status = 500,
                        body = Failed ''Failed to generate explanation'' (message e)\<rparr>,
                       log_event (GenerateContent ''gemini-2.0-flash-lite'' prompt) W)
                  | Inr explanation \<Rightarrow>
                      (case appendExplanation E questionId explanation
                              (log_event (GenerateContent ''gemini-2.0-flash-lite'' prompt) W) of
                         (Inr res, W') \<Rightarrow> (res, W')
                       | (Inl e, W') \<Rightarrow>
                           (\<lparr>status = 500,
                             body = Failed ''Failed to generate explanation'' (message e)\<rparr>,
                            W')))))"
  unfolding generateConceptExplanation_def
    generateConceptExplanation_fields [OF assms(1) assms(2)]
  using assms(3-5) by (simp add: bind_err_def split: sum.splits)

text \<open>The lookup of a question that is not stored: 404, or the error of the database.\<close>

lemma appendExplanation_unknown:
  assumes "questions W questionId = None"
  shows "appendExplanation E questionId explanation W =
     (case db_fault E (FindById questionId) of
        Some e \<Rightarrow> Inl e
      | None \<Rightarrow> Inr \<lparr>status = 404, body = Message ''Question not found''\<rparr>,
      log_event (FindById questionId) W)"
  by (simp add: appendExplanation_eq assms split: option.splits)

lemma appendExplanation_status:
  assumes "appendExplanation E questionId explanation W = (Inr res, W')"
  shows "status res = 404 \<and> questions W questionId = None
           \<and> W' = log_event (FindById questionId) W
         \<or> status res = 200"
  using assms unfolding appendExplanation_eq
  by (auto split: option.splits sum.splits)

text \<open>Without a request body the destructuring of line 87 throws.\<close>

lemma generateConceptExplanation_no_body:
  assumes "nullish req_body"
  shows "\<exists>m. generateConceptExplanation E req_body W =
           (\<lparr>status = 500, body = Failed ''Failed to generate explanation'' m\<rparr>, W)"
  using assms
  unfolding nullish_def generateConceptExplanation_def generateConceptExplanation_try_def
  by (auto simp: io_steps)

text \<open>
  The whole of \<open>generateConceptExplanation\<close> for a \<^verbatim>\<open>questionId\<close> that matches no stored
  question, step by step.
\<close>

lemma generateConceptExplanation_unknown_eq:
  assumes "Get req_body ''questionId'' = Inr questionId"
    and "Get req_body ''question'' = Inr question"
    and "questions W questionId = None"
  shows "generateConceptExplanation E req_body W =
     (if \<not> (truthy questionId \<and> truthy question)
      then (\<lparr>status = 400, body = Message ''Missing required fields''\<rparr>, W)
      else
        (case conceptExplainPrompt E question of
           Inl e \<Rightarrow>
             (\<lparr>status = 500, body = Failed ''Failed to generate explanation'' (message e)\<rparr>, W)
         | Inr prompt \<Rightarrow>
             (case generateContent E ''gemini-2.0-flash-lite'' prompt of
                Inl e \<Rightarrow>
                  (\<lparr>status = 500,
                    body = Failed ''Failed to generate explanation'' (message e)\<rparr>,
                   log_event (GenerateContent ''gemini-2.0-flash-lite'' prompt) W)
              | Inr response \<Rightarrow>
                  (case getGeminiText response of
                     Inl e \<Rightarrow>
                       (\<lparr>status = 500,
                         body = Failed ''Failed to generate explanation'' (message e)\<rparr>,
                        log_event (GenerateContent ''gemini-2.0-flash-lite'' prompt) W)
                   | Inr extracted \<Rightarrow>
                       if \<not> truthy extracted
                       then (\<lparr>status = 500, body = Message ''No response from Gemini''\<rparr>,
                             log_event (GenerateContent ''gemini-2.0-flash-lite'' prompt) W)
                       else
                         (case tryParseJSON extracted of
                            Inl e \<Rightarrow>
                              (\<lparr>status = 500,
                                body = Failed ''Failed to generate explanation'' (message e)\<rparr>,
                               log_event (GenerateContent ''gemini-2.0-flash-lite'' prompt) W)
                          | Inr r \<Rightarrow>
                              (case db_fault E (FindById questionId) of
                                 Some e \<Rightarrow>
                                   (\<lparr>status = 500,
                                     body = Failed ''Failed to generate explanation''
                                              (message e)\<rparr>,
                                    log_event (FindById questionId)
                                      (log_event
                                         (GenerateContent ''gemini-2.0-flash-lite'' prompt) W))
                               | None \<Rightarrow>
                                   (\<lparr>status = 404, body = Message ''Question not found''\<rparr>,
                                    log_event (FindById questionId)
                                      (log_event
                                         (GenerateContent ''gemini-2.0-flash-lite'' prompt)
                                         W))))))))"
proof (cases "truthy questionId \<and> truthy question")
  case False
  then show ?thesis
    unfolding generateConceptExplanation_def
      generateConceptExplanation_fields [OF assms(1) assms(2)]
    by auto
next
  case True
  show ?thesis
  proof (cases "conceptExplainPrompt E question")
    case (Inl e)
    with True show ?thesis
      unfolding generateConceptExplanation_def
        generateConceptExplanation_fields [OF assms(1) assms(2)]
      by auto
  next
    case (Inr p)
    note c = generateConceptExplanation_cases [OF assms(1) assms(2) True [THEN conjunct1]
        True [THEN conjunct2] Inr, of W]
    have q: "questions (log_event (GenerateContent ''gemini-2.0-flash-lite'' p) W) questionId
        = None"
      using assms(3) by simp
    note u = appendExplanation_unknown [OF q, of E]
    show ?thesis
    proof (cases "generateContent E ''gemini-2.0-flash-lite'' p")
      case Inl
      with True Inr show ?thesis unfolding c by simp
    next
      case response: (Inr response)
      show ?thesis
      proof (cases "getGeminiText response")
        case Inl
        with True Inr response show ?thesis unfolding c by simp
      next
        case extracted: (Inr extracted)
        show ?thesis
        proof (cases "truthy extracted")
          case False
          with True Inr response extracted show ?thesis unfolding c by simp
        next
          case t: True
          show ?thesis
          proof (cases "tryParseJSON extracted")
            case Inl
            with True Inr response extracted t show ?thesis unfolding c by simp
          next
            case r: (Inr r)
            obtain x where x: "explanation_of (json r) extracted = Inr x"
              using explanation_of_total by blast
            from True Inr response extracted t r x show ?thesis
              unfolding c u by (simp split: option.splits)
          qed
        qed
      qed
    qed
  qed
qed

text \<open>
  C9, as stated, fails. The question is looked up only after the provider call, so with
  an identifier that matches no stored question and a provider response without text the
  answer is 500, not 404. And a field that is present is not enough for the validation
  of line 89: with the \<^verbatim>\<open>questionId\<close> 0, which matches no stored question either, the
  answer is 400.
\<close>

theorem generateConceptExplanation_no_text_counterexample:
  \<open>questions (one_question (Some ''A'')) (JStr ''missing'') = None
   \<and> Get (explanation_request ''missing'') ''questionId'' = Inr (JStr ''missing'')
   \<and> fst (generateConceptExplanation (stub_env (Inr (JObj [(''candidates'', JArr [])])))
            (explanation_request ''missing'') (one_question (Some ''A''))) =
       \<lparr>status = 500, body = Message ''No response from Gemini''\<rparr>
   \<and> questions (one_question (Some ''A'')) (JNum 0 0) = None
   \<and> fst (generateConceptExplanation
            (stub_env (Inr (gemini_response ''{"explanation":"because"}'')))
            (JObj [(''questionId'', JNum 0 0), (''question'', JStr ''What is a closure?'')])
            (one_question (Some ''A''))) =
       \<lparr>status = 400, body = Message ''Missing required fields''\<rparr>\<close>
  by code_simp

text \<open>
  C9, amended. For a request to \<open>generateConceptExplanation\<close> whose \<^verbatim>\<open>questionId\<close> matches no
  stored question, the update operation is never invoked and the stored questions are
  unchanged. The answer is 404, with \<^verbatim>\<open>Question not found\<close>, exactly when the body is
  there, both fields are truthy, every step before the lookup succeeds (the prompt is
  built, the provider returns a response with a truthy text, JSON recovery does not throw)
  and the lookup does not fail. It is 400, with \<^verbatim>\<open>Missing required fields\<close> and the world
  as it was, exactly when the body is there and one of the two fields is falsy. In every
  other case it is 500; without a body in particular, with the world as it was.
\<close>

theorem generateConceptExplanation_unknown_question:
  assumes "generateConceptExplanation E req_body W = (res, W')"
    and "\<forall>ident. Get req_body ''questionId'' = Inr ident \<longrightarrow> questions W ident = None"
  shows "questions W' = questions W
    \<and> (\<exists>evs. trace W' = trace W @ evs \<and> (\<forall>ident a. FindByIdAndUpdate ident a \<notin> set evs))
    \<and> (status res = 404 \<longleftrightarrow>
         (\<exists>questionId question prompt response extracted r.
            Get req_body ''questionId'' = Inr questionId
            \<and> Get req_body ''question'' = Inr question
            \<and> truthy questionId \<and> truthy question
            \<and> conceptExplainPrompt E question = Inr prompt
            \<and> generateContent E ''gemini-2.0-flash-lite'' prompt = Inr response
            \<and> getGeminiText response = Inr extracted \<and> truthy extracted
            \<and> tryParseJSON extracted = Inr r
            \<and> db_fault E (FindById questionId) = None))
    \<and> (status res = 404 \<longrightarrow> res = \<lparr>status = 404, body = Message ''Question not found''\<rparr>)
    \<and> (status res = 400 \<longleftrightarrow>
         (\<exists>questionId question.
            Get req_body ''questionId'' = Inr questionId
            \<and> Get req_body ''question'' = Inr question
            \<and> \<not> (truthy questionId \<and> truthy question)))
    \<and> (status res = 400 \<longrightarrow>
          res = \<lparr>status = 400, body = Message ''Missing required fields''\<rparr> \<and> W' = W)
    \<and> (status res \<noteq> 404 \<and> status res \<noteq> 400 \<longrightarrow> status res = 500)
    \<and> (nullish req_body \<longrightarrow> status res = 500 \<and> W' = W)"
proof (cases "nullish req_body")
  case True
  obtain m where "generateConceptExplanation E req_body W =
      (\<lparr>status = 500, body = Failed ''Failed to generate explanation'' m\<rparr>, W)"
    using generateConceptExplanation_no_body [OF True] by blast
  with assms(1) have r: "res = \<lparr>status = 500, body = Failed ''Failed to generate explanation'' m\<rparr>"
    and w: "W' = W"
    by simp_all
  have g: "\<And>k v. Get req_body k \<noteq> Inr v"
    using True Get_Inr_not_nullish by blast
  show ?thesis
    by (simp add: r w g)
next
  case False
  obtain questionId where g1: "Get req_body ''questionId'' = Inr questionId"
    using Get_total [OF False] by blast
  obtain question where g2: "Get req_body ''question'' = Inr question"
    using Get_total [OF False] by blast
  from assms(2) g1 have n: "questions W questionId = None"
    by blast
  note e = assms(1) [unfolded generateConceptExplanation_unknown_eq [OF g1 g2 n, of E]]
  have a: "questions W' = questions W"
    using e by (auto split: if_splits sum.splits option.splits)
  have b: "\<exists>evs. trace W' = trace W @ evs \<and> (\<forall>ident a. FindByIdAndUpdate ident a \<notin> set evs)"
    using e by (auto split: if_splits sum.splits option.splits)
  have c: "status res = 404 \<longleftrightarrow>
         (\<exists>questionId question prompt response extracted r.
            Get req_body ''questionId'' = Inr questionId
            \<and> Get req_body ''question'' = Inr question
            \<and> truthy questionId \<and> truthy question
            \<and> conceptExplainPrompt E question = Inr prompt
            \<and> generateContent E ''gemini-2.0-flash-lite'' prompt = Inr response
            \<and> getGeminiText response = Inr extracted \<and> truthy extracted
            \<and> tryParseJSON extracted = Inr r
            \<and> db_fault E (FindById questionId) = None)"
    unfolding g1 g2 using e
    by (auto split: if_splits sum.splits option.splits)
  have d: "status res = 404 \<longrightarrow> res = \<lparr>status = 404, body = Message ''Question not found''\<rparr>"
    using e by (auto split: if_splits sum.splits option.splits)
  have f: "status res = 400 \<longleftrightarrow>
         (\<exists>questionId question.
            Get req_body ''questionId'' = Inr questionId
            \<and> Get req_body ''question'' = Inr question
            \<and> \<not> (truthy questionId \<and> truthy question))"
    unfolding g1 g2 using e
    by (auto split: if_splits sum.splits option.splits)
  have h: "status res = 400 \<longrightarrow>
          res = \<lparr>status = 400, body = Message ''Missing required fields''\<rparr> \<and> W' = W"
    using e by (auto split: if_splits sum.splits option.splits)
  have i: "status res \<noteq> 404 \<and> status res \<noteq> 400 \<longrightarrow> status res = 500"
    using e by (auto split: if_splits sum.splits option.splits)
  from a b c d f h i False show ?thesis
    by blast
qed

text \<open>
  The theorem at a request for the identifier \<^verbatim>\<open>missing\<close>, with the one stored question
  \<^verbatim>\<open>q1\<close>. With a provider that answers with an explanation: 404, the store as it was, and
  a trace of the provider call and the lookup, without an update. With a provider that
  rejects: 500, and the store as it was.
\<close>

theorem generateConceptExplanation_unknown_question_witness:
  \<open>fst (generateConceptExplanation
          (stub_env (Inr (gemini_response ''{"explanation":"because"}'')))
          (explanation_request ''missing'') (one_question (Some ''A''))) =
     \<lparr>status = 404, body = Message ''Question not found''\<rparr>
   \<and> questions (snd (generateConceptExplanation
          (stub_env (Inr (gemini_response ''{"explanation":"because"}'')))
          (explanation_request ''missing'') (one_question (Some ''A'')))) =
       questions (one_question (Some ''A''))
   \<and> trace (snd (generateConceptExplanation
          (stub_env (Inr (gemini_response ''{"explanation":"because"}'')))
          (explanation_request ''missing'') (one_question (Some ''A'')))) =
       [GenerateContent ''gemini-2.0-flash-lite'' ''explain prompt'', FindById (JStr ''missing'')]
   \<and> status (fst (generateConceptExplanation (stub_env (Inl (Rejected ''quota exceeded'')))
          (explanation_request ''missing'') (one_question (Some ''A'')))) = 500
   \<and> questions (snd (generateConceptExplanation (stub_env (Inl (Rejected ''quota exceeded'')))
          (explanation_request ''missing'') (one_question (Some ''A'')))) =
       questions (one_question (Some ''A''))\<close>
proof -
  define E where \<open>E = stub_env (Inr (gemini_response ''{"explanation":"because"}''))\<close>
  define E2 where "E2 = stub_env (Inl (Rejected ''quota exceeded''))"
  define W where "W = one_question (Some ''A'')"
  define b where "b = explanation_request ''missing''"
  have g1: "Get b ''questionId'' = Inr (JStr ''missing'')"
    and g2: "Get b ''question'' = Inr (JStr ''What is a closure?'')"
    by (simp_all add: b_def explanation_request_def)
  have t1: "truthy (JStr ''missing'')" and t2: "truthy (JStr ''What is a closure?'')"
    by simp_all
  have n: "questions W (JStr ''missing'') = None"
    by (simp add: W_def one_question_def)
  have u: "\<forall>ident. Get b ''questionId'' = Inr ident \<longrightarrow> questions W ident = None"
    using g1 n by simp
  have pair: "\<And>E. generateConceptExplanation E b W =
      (fst (generateConceptExplanation E b W), snd (generateConceptExplanation E b W))"
    by simp
  have p: "conceptExplainPrompt E (JStr ''What is a closure?'') = Inr ''explain prompt''"
    \<open>generateContent E ''gemini-2.0-flash-lite'' ''explain prompt'' =
       Inr (gemini_response ''{"explanation":"because"}'')\<close>
    "db_fault E (FindById (JStr ''missing'')) = None"
    by (simp_all add: E_def stub_env_def)
  have x: \<open>getGeminiText (gemini_response ''{"explanation":"because"}'') =
       Inr (JStr ''{"explanation":"because"}'')\<close>
    by code_simp
  have tx: \<open>truthy (JStr ''{"explanation":"because"}'')\<close>
    by simp
  have y: \<open>tryParseJSON (JStr ''{"explanation":"because"}'') =
       Inr \<lparr>json = JObj [(''explanation'', JStr ''because'')], error = JNull\<rparr>\<close>
    by code_simp
  note th = generateConceptExplanation_unknown_question [OF pair u, of E]
  have "\<exists>questionId question prompt response extracted r.
            Get b ''questionId'' = Inr questionId
            \<and> Get b ''question'' = Inr question
            \<and> truthy questionId \<and> truthy question
            \<and> conceptExplainPrompt E question = Inr prompt
            \<and> generateContent E ''gemini-2.0-flash-lite'' prompt = Inr response
            \<and> getGeminiText response = Inr extracted \<and> truthy extracted
            \<and> tryParseJSON extracted = Inr r
            \<and> db_fault E (FindById questionId) = None"
    using g1 g2 t1 t2 p x tx y by blast
  with th have s: "status (fst (generateConceptExplanation E b W)) = 404"
    by blast
  with th have a: "fst (generateConceptExplanation E b W) =
      \<lparr>status = 404, body = Message ''Question not found''\<rparr>"
    by blast
  from th have c: "questions (snd (generateConceptExplanation E b W)) = questions W"
    by (rule conjunct1)
  have d: "trace (snd (generateConceptExplanation E b W)) =
      [GenerateContent ''gemini-2.0-flash-lite'' ''explain prompt'', FindById (JStr ''missing'')]"
    unfolding E_def W_def b_def by code_simp
  note th2 = generateConceptExplanation_unknown_question [OF pair u, of E2]
  have r2: "\<And>m q. generateContent E2 m q = Inl (Rejected ''quota exceeded'')"
    by (simp add: E2_def stub_env_def)
  from th2 have "status (fst (generateConceptExplanation E2 b W)) \<noteq> 404"
    by (simp add: r2)
  moreover from th2 have "status (fst (generateConceptExplanation E2 b W)) \<noteq> 400"
    by (simp add: g1 g2)
  ultimately have f: "status (fst (generateConceptExplanation E2 b W)) = 500"
    using th2 by blast
  from th2 have h: "questions (snd (generateConceptExplanation E2 b W)) = questions W"
    by (rule conjunct1)
  from a c d f h show ?thesis
    unfolding E_def E2_def W_def b_def by (intro conjI)
qed

lemma appendExplanation_trace:
  assumes "appendExplanation E questionId explanation W = (out, W')"
  shows "\<exists>evs. trace W' = trace W @ evs \<and> (\<forall>m p. GenerateContent m p \<notin> set evs)"
  using assms unfolding appendExplanation_eq
  by (auto split: option.splits sum.splits)

text \<open>
  C10. For a request to \<open>generateConceptExplanation\<close> that passes the validation and whose
  prompt is built, the provider call is the first effect, before any lookup. When the
  provider rejects, or its response has no text, the answer is 500 and the trace holds
  the provider call alone: the question was never looked up. When the answer is 404, the
  provider was called and returned a text, JSON recovery ran on it, and only then was the
  question looked up and not found.
\<close>

theorem generateConceptExplanation_provider_before_lookup:
  assumes "Get req_body ''questionId'' = Inr questionId"
    and "Get req_body ''question'' = Inr question"
    and "truthy questionId" and "truthy question"
    and "conceptExplainPrompt E question = Inr prompt"
    and "generateConceptExplanation E req_body W = (res, W')"
  shows "(\<exists>evs. trace W' = trace W @ GenerateContent ''gemini-2.0-flash-lite'' prompt # evs
            \<and> (\<forall>m p. GenerateContent m p \<notin> set evs))
    \<and> (generateContent E ''gemini-2.0-flash-lite'' prompt = Inl e
        \<longrightarrow> res = \<lparr>status = 500,
                    body = Failed ''Failed to generate explanation'' (message e)\<rparr>
            \<and> trace W' = trace W @ [GenerateContent ''gemini-2.0-flash-lite'' prompt])
    \<and> (generateContent E ''gemini-2.0-flash-lite'' prompt = Inr response
        \<and> getGeminiText response = Inr JNull
        \<longrightarrow> res = \<lparr>status = 500, body = Message ''No response from Gemini''\<rparr>
            \<and> trace W' = trace W @ [GenerateContent ''gemini-2.0-flash-lite'' prompt])
    \<and> (status res = 404
        \<longrightarrow> questions W questionId = None
            \<and> trace W' =
                trace W @ [GenerateContent ''gemini-2.0-flash-lite'' prompt, FindById questionId]
            \<and> (\<exists>response extracted r.
                  generateContent E ''gemini-2.0-flash-lite'' prompt = Inr response
                  \<and> getGeminiText response = Inr extracted \<and> truthy extracted
                  \<and> tryParseJSON extracted = Inr r))"
proof -
  note c = generateConceptExplanation_cases [OF assms(1) assms(2) assms(3) assms(4) assms(5), of W]
  let ?W1 = "log_event (GenerateContent ''gemini-2.0-flash-lite'' prompt) W"
  have tr: "\<And>x out V. appendExplanation E questionId x ?W1 = (out, V) \<Longrightarrow>
      \<exists>evs. trace V = trace W @ GenerateContent ''gemini-2.0-flash-lite'' prompt # evs
            \<and> (\<forall>m p. GenerateContent m p \<notin> set evs)"
    using appendExplanation_trace by fastforce
  have a: "\<exists>evs. trace W' = trace W @ GenerateContent ''gemini-2.0-flash-lite'' prompt # evs
            \<and> (\<forall>m p. GenerateContent m p \<notin> set evs)"
    using assms(6) unfolding c
    by (auto split: sum.splits if_splits prod.splits dest: tr)
  have b: "generateContent E ''gemini-2.0-flash-lite'' prompt = Inl e
        \<longrightarrow> res = \<lparr>status = 500,
                    body = Failed ''Failed to generate explanation'' (message e)\<rparr>
            \<and> trace W' = trace W @ [GenerateContent ''gemini-2.0-flash-lite'' prompt]"
    using assms(6) unfolding c by auto
  have d: "generateContent E ''gemini-2.0-flash-lite'' prompt = Inr response
        \<and> getGeminiText response = Inr JNull
        \<longrightarrow> res = \<lparr>status = 500, body = Message ''No response from Gemini''\<rparr>
            \<and> trace W' = trace W @ [GenerateContent ''gemini-2.0-flash-lite'' prompt]"
    using assms(6) unfolding c by auto
  have f: "status res = 404
        \<longrightarrow> questions W questionId = None
            \<and> trace W' =
                trace W @ [GenerateContent ''gemini-2.0-flash-lite'' prompt, FindById questionId]
            \<and> (\<exists>response extracted r.
                  generateContent E ''gemini-2.0-flash-lite'' prompt = Inr response
                  \<and> getGeminiText response = Inr extracted \<and> truthy extracted
                  \<and> tryParseJSON extracted = Inr r)"
  proof
    assume s: "status res = 404"
    from assms(6) s obtain response where
      r: "generateContent E ''gemini-2.0-flash-lite'' prompt = Inr response"
      unfolding c by (cases "generateContent E ''gemini-2.0-flash-lite'' prompt") auto
    from assms(6) s r obtain extracted where
      x: "getGeminiText response = Inr extracted" and tx: "truthy extracted"
      unfolding c by (cases "getGeminiText response") (auto split: if_splits)
    from assms(6) s r x tx obtain explanation where
      ex: "bind_err (tryParseJSON extracted) (\<lambda>r. explanation_of (json r) extracted)
             = Inr explanation"
      unfolding c
      by (cases "bind_err (tryParseJSON extracted) (\<lambda>r. explanation_of (json r) extracted)") auto
    then obtain r' where pr: "tryParseJSON extracted = Inr r'"
      unfolding bind_err_eq_Inr by blast
    from assms(6) r x tx ex have
      ap: "appendExplanation E questionId explanation ?W1 = (Inr res, W')
           \<or> (\<exists>e. res = \<lparr>status = 500,
                  body = Failed ''Failed to generate explanation'' (message e)\<rparr>)"
      unfolding c by (auto split: sum.splits prod.splits)
    with s have "appendExplanation E questionId explanation ?W1 = (Inr res, W')"
      by auto
    from appendExplanation_status [OF this] s
    have "questions ?W1 questionId = None \<and> W' = log_event (FindById questionId) ?W1"
      by auto
    with r x tx pr show "questions W questionId = None
            \<and> trace W' =
                trace W @ [GenerateContent ''gemini-2.0-flash-lite'' prompt, FindById questionId]
            \<and> (\<exists>response extracted r.
                  generateContent E ''gemini-2.0-flash-lite'' prompt = Inr response
                  \<and> getGeminiText response = Inr extracted \<and> truthy extracted
                  \<and> tryParseJSON extracted = Inr r)"
      by auto
  qed
  from a b d f show ?thesis by blast
qed

text \<open>
  The theorem at a request for the identifier \<^verbatim>\<open>missing\<close>, first with a provider that
  rejects with \<^verbatim>\<open>quota exceeded\<close> (500, and the provider call alone in the trace), then
  with a provider that answers (404, after the provider call and the lookup).
\<close>

theorem generateConceptExplanation_provider_before_lookup_witness:
  \<open>generateConceptExplanation (stub_env (Inl (Rejected ''quota exceeded'')))
     (explanation_request ''missing'') \<lparr>questions = Map.empty, trace = []\<rparr> =
     (\<lparr>status = 500, body = Failed ''Failed to generate explanation'' ''quota exceeded''\<rparr>,
      \<lparr>questions = Map.empty,
       trace = [GenerateContent ''gemini-2.0-flash-lite'' ''explain prompt'']\<rparr>)
   \<and> status (fst (generateConceptExplanation
                  (stub_env (Inr (gemini_response ''{"explanation":"because"}'')))
                  (explanation_request ''missing'') \<lparr>questions = Map.empty, trace = []\<rparr>)) = 404
   \<and> trace (snd (generateConceptExplanation
                  (stub_env (Inr (gemini_response ''{"explanation":"because"}'')))
                  (explanation_request ''missing'') \<lparr>questions = Map.empty, trace = []\<rparr>)) =
       [GenerateContent ''gemini-2.0-flash-lite'' ''explain prompt'', FindById (JStr ''missing'')]\<close>
proof -
  define E1 where "E1 = stub_env (Inl (Rejected ''quota exceeded''))"
  define E2 where \<open>E2 = stub_env (Inr (gemini_response ''{"explanation":"because"}''))\<close>
  define W where "W = \<lparr>questions = Map.empty :: jsval \<rightharpoonup> question, trace = []\<rparr>"
  define b where "b = explanation_request ''missing''"
  have g1: "Get b ''questionId'' = Inr (JStr ''missing'')"
    and g2: "Get b ''question'' = Inr (JStr ''What is a closure?'')"
    by (simp_all add: b_def explanation_request_def)
  have t1: "truthy (JStr ''missing'')" and t2: "truthy (JStr ''What is a closure?'')"
    by simp_all
  have p1: "conceptExplainPrompt E1 (JStr ''What is a closure?'') = Inr ''explain prompt''"
    and p2: "conceptExplainPrompt E2 (JStr ''What is a closure?'') = Inr ''explain prompt''"
    and r1: "generateContent E1 ''gemini-2.0-flash-lite'' ''explain prompt'' =
               Inl (Rejected ''quota exceeded'')"
    by (simp_all add: E1_def E2_def stub_env_def)
  have pair: "\<And>E. generateConceptExplanation E b W =
      (fst (generateConceptExplanation E b W), snd (generateConceptExplanation E b W))"
    by simp
  note th1 = generateConceptExplanation_provider_before_lookup [OF g1 g2 t1 t2 p1 pair,
      where e = "Rejected ''quota exceeded''", THEN conjunct2, THEN conjunct1, rule_format, OF r1]
  have a: "generateConceptExplanation E1 b W =
     (\<lparr>status = 500, body = Failed ''Failed to generate explanation'' ''quota exceeded''\<rparr>,
      \<lparr>questions = Map.empty,
       trace = [GenerateContent ''gemini-2.0-flash-lite'' ''explain prompt'']\<rparr>)"
  proof -
    have "questions (snd (generateConceptExplanation E1 b W)) = Map.empty"
      unfolding generateConceptExplanation_cases [OF g1 g2 t1 t2 p1] r1
      by (simp add: W_def)
    with th1 show ?thesis
      by (cases "generateConceptExplanation E1 b W") (simp add: W_def)
  qed
  have s: "status (fst (generateConceptExplanation E2 b W)) = 404"
    unfolding E2_def W_def b_def by code_simp
  note th2 = generateConceptExplanation_provider_before_lookup [OF g1 g2 t1 t2 p2 pair,
      THEN conjunct2, THEN conjunct2, THEN conjunct2, rule_format, OF s]
  from th2 have c: "trace (snd (generateConceptExplanation E2 b W)) =
      [GenerateContent ''gemini-2.0-flash-lite'' ''explain prompt'', FindById (JStr ''missing'')]"
    by (simp add: W_def)
  from a s c show ?thesis
    unfolding E1_def E2_def W_def b_def by (intro conjI)
qed

subsection \<open>The explanation of a text that is not JSON\<close>

text \<open>
  C1 states that the explanation of a text that does not parse is the text itself. The
  code gives the string \<^verbatim>\<open>null\<close>: after both parses fail \<^verbatim>\<open>json\<close> is \<^verbatim>\<open>null\<close>, and
  \<^verbatim>\<open>typeof null\<close> is \<^verbatim>\<open>"object"\<close>, so line 110 takes \<^verbatim>\<open>JSON.stringify(json)\<close>. For the
  provider text \<^verbatim>\<open>not json at all\<close> and the stored question \<^verbatim>\<open>q1\<close> with the answer \<^verbatim>\<open>A\<close>,
  the handler answers 200 and stores \<^verbatim>\<open>A\<close>, the separator and \<^verbatim>\<open>null\<close>.
\<close>

theorem generateConceptExplanation_unparsable_text_stores_null:
  \<open>tryParseJSON (JStr ''not json at all'') =
     Inr \<lparr>json = JNull, error = JStr ''"not json at all" is not valid JSON''\<rparr>
   \<and> explanation_of JNull (JStr ''not json at all'') = Inr (JStr ''null'')
   \<and> fst (generateConceptExplanation (stub_env (Inr (gemini_response ''not json at all'')))
            (explanation_request ''q1'') (one_question (Some ''A''))) =
       \<lparr>status = 200,
        body = Updated (Some \<lparr>qtext = ''What is a closure?'',
                              answer = Some ''A\<newline>\<newline>Explanation:\<newline>null''\<rparr>)\<rparr>
   \<and> questions (snd (generateConceptExplanation
                       (stub_env (Inr (gemini_response ''not json at all'')))
                       (explanation_request ''q1'') (one_question (Some ''A'')))) (JStr ''q1'') =
       Some \<lparr>qtext = ''What is a closure?'',
             answer = Some ''A\<newline>\<newline>Explanation:\<newline>null''\<rparr>\<close>
  by code_simp

end
